theory Spec2Isabelle
  imports Main "HOL-Library.Sublist"
begin

section \<open>Text: Python and SQL string primitives used by the pipeline\<close>

text \<open>
  A string is a list of 8-bit characters. The archives are decoded as latin1, where one byte
  is one code point, so a \<^typ>\<open>char\<close> is one Python character of the decoded feed.
\<close>

definition quote :: char where
  "quote = CHR 0x27"

definition backslash :: char where
  "backslash = CHR 0x5C"

text \<open>
  \<^verbatim>\<open>str.isspace\<close> on the code points below 256: tab, line feed, vertical tab, form feed,
  carriage return, the four separators 0x1C..0x1F, space, NEL (0x85) and the no-break
  space (0xA0).
\<close>

definition py_isspace :: "char \<Rightarrow> bool" where
  "py_isspace c = (of_char c \<in> {9, 10, 11, 12, 13, 28, 29, 30, 31, 32, 133, 160 :: nat})"

text \<open>
  Removing a class of characters from both ends: Python's \<^verbatim>\<open>s.strip()\<close> for the
  whitespace class, SQL's \<^verbatim>\<open>TRIM(BOTH '''' FROM s)\<close> for the quote character.
\<close>

definition strip_by :: "(char \<Rightarrow> bool) \<Rightarrow> string \<Rightarrow> string" where
  "strip_by P s = rev (dropWhile P (rev (dropWhile P s)))"

definition py_strip :: "string \<Rightarrow> string" where
  "py_strip = strip_by py_isspace"

text \<open>\<^verbatim>\<open>s.replace("'", "")\<close>: every quote character is removed.\<close>

definition remove_quotes :: "string \<Rightarrow> string" where
  "remove_quotes s = filter (\<lambda>c. c \<noteq> quote) s"

text \<open>
  The identifier normalisation of Phases 2, 3 and 4:
  \<^verbatim>\<open>.astype(str).str.replace("'", "").str.strip()\<close> on a feed column and
  \<^verbatim>\<open>str(x).replace("'", "").strip()\<close> on a stored value.
\<close>

definition normalize_id :: "string \<Rightarrow> string" where
  "normalize_id s = py_strip (remove_quotes s)"

section \<open>Python values\<close>

text \<open>
  The value of a cell of a parsed table: \<^verbatim>\<open>pd.read_csv\<close> gives text, whole numbers (a
  column of numerals is read as numbers) and the missing value. \<open>py_str\<close> is \<^verbatim>\<open>str(v)\<close>, the
  cast of \<^verbatim>\<open>.astype(str)\<close>; the missing value prints as \<^verbatim>\<open>nan\<close>.
\<close>

datatype pyval = Text string | Whole int | Missing

function show_nat :: "nat \<Rightarrow> string" where
  "show_nat n =
     (if n < 10 then [char_of (48 + n)]
      else show_nat (n div 10) @ [char_of (48 + n mod 10)])"
  by pat_completeness auto

termination
  by (relation "measure (\<lambda>n. n)") auto

declare show_nat.simps [simp del]

definition show_int :: "int \<Rightarrow> string" where
  "show_int i = (if i < 0 then CHR ''-'' # show_nat (nat (- i)) else show_nat (nat i))"

fun py_str :: "pyval \<Rightarrow> string" where
  "py_str (Text t) = t"
| "py_str (Whole i) = show_int i"
| "py_str Missing = ''nan''"

text \<open>
  What a text column of the store gives back for a value written to it: the text, the
  numeral of a number, and \<^verbatim>\<open>NULL\<close> (read as \<^verbatim>\<open>None\<close>) for the missing value.
\<close>

fun sql_text :: "pyval \<Rightarrow> string option" where
  "sql_text (Text t) = Some t"
| "sql_text (Whole i) = Some (show_int i)"
| "sql_text Missing = None"

text \<open>
  \<^verbatim>\<open>Series.isin(values)\<close> against values read from a text column: a text cell is found when
  the same text is among them; a number equals no text, and the missing value equals
  neither a text nor \<^verbatim>\<open>None\<close>.
\<close>

fun py_isin :: "pyval \<Rightarrow> string option list \<Rightarrow> bool" where
  "py_isin (Text t) values = (Some t \<in> set values)"
| "py_isin (Whole i) values = False"
| "py_isin Missing values = False"

section \<open>Data frames, de-duplication and bulk insert\<close>

text \<open>
  A data frame as the archive fetcher returns it: the header names, stripped, and the rows.
  Two header names may be equal after stripping. A row shorter than the header is padded by
  pandas with the missing value.
\<close>

record dataframe =
  columns :: "string list"
  rows :: "pyval list list"

definition cell :: "pyval list \<Rightarrow> nat \<Rightarrow> pyval" where
  "cell r i = (if i < length r then r ! i else Missing)"

text \<open>
  The phases take the name found at a position, \<^verbatim>\<open>df.columns[i]\<close>, and select by that
  name. When the name stands over one column only, \<^verbatim>\<open>df[name]\<close> is the column at position
  \<open>i\<close>; when it stands over several, \<^verbatim>\<open>df[name]\<close> is a frame of all of them.
\<close>

definition unique_label :: "dataframe \<Rightarrow> nat \<Rightarrow> bool" where
  "unique_label df i = (count_list (columns df) (columns df ! i) = 1)"

text \<open>
  \<^verbatim>\<open>drop_duplicates(subset=[key], keep='first')\<close>: rows are visited in order and a row is
  kept when its key has not been seen before.
\<close>

fun keep_first :: "('a \<Rightarrow> 'k) \<Rightarrow> 'k list \<Rightarrow> 'a list \<Rightarrow> 'a list" where
  "keep_first key seen [] = []"
| "keep_first key seen (x # xs) =
     (if key x \<in> set seen then keep_first key seen xs
      else x # keep_first key (key x # seen) xs)"

definition drop_duplicates :: "('a \<Rightarrow> 'k) \<Rightarrow> 'a list \<Rightarrow> 'a list" where
  "drop_duplicates key xs = keep_first key [] xs"

text \<open>
  \<^verbatim>\<open>DataFrame.to_sql(table, engine, if_exists='append', index=False, chunksize=c)\<close> hands the
  frame to the engine in batches, one \<^verbatim>\<open>Connection.execute\<close> per batch with the rows of the
  batch as its parameter list: with no chunk size all rows are one batch, with chunk size
  \<open>n\<close> the frame is cut into consecutive slices of \<open>n\<close> rows. An empty frame gives no batch.
  (pandas rejects a chunk size of zero; the pipeline only passes 1000.)
\<close>

function chunks :: "nat \<Rightarrow> 'a list \<Rightarrow> 'a list list" where
  "chunks n xs = (if n = 0 \<or> xs = [] then [] else take n xs # chunks n (drop n xs))"
  by pat_completeness auto

termination
  by (relation "measure (\<lambda>(n, xs). length xs)") auto

declare chunks.simps [simp del]

definition to_sql :: "nat option \<Rightarrow> 'a list \<Rightarrow> 'a list list" where
  "to_sql chunksize frame =
     (case chunksize of
        None \<Rightarrow> (if frame = [] then [] else [frame])
      | Some n \<Rightarrow> chunks n frame)"

text \<open>
  No \<^verbatim>\<open>method\<close> is passed, so a batch is executed as a one-row \<^verbatim>\<open>INSERT\<close> with a parameter
  list. The engine sends such a list in pages: \<open>page\<close> is the number of rows it packs into
  one \<^verbatim>\<open>INSERT\<close> statement (1000 for the engine's default page; 1 for a driver that sends
  the rows one by one). The journal holds one entry for every statement that reaches the
  store: the table and the number of rows the statement carries.
\<close>

definition executemany :: "nat \<Rightarrow> string \<Rightarrow> 'a list \<Rightarrow> (string \<times> nat) list" where
  "executemany page table params = map (\<lambda>p. (table, length p)) (chunks page params)"

definition statements :: "nat \<Rightarrow> string \<Rightarrow> 'a list list \<Rightarrow> (string \<times> nat) list" where
  "statements page table batches = concat (map (executemany page table) batches)"

section \<open>The catalog store\<close>

text \<open>
  The five tables. Tables are append-only lists of rows in insertion order; the pipeline
  declares no constraint on them. The drug identifiers are text. The columns that the
  phases write without a cast (side-effect code and name, protein) hold the value as
  written. A link row carries \<open>is_combo\<close> only when the insert supplies the column
  (Phase 3); Phase 2 leaves it to the schema (\<open>None\<close>).
\<close>

record db =
  drugs :: "(string \<times> string) list"
  side_effects :: "(pyval \<times> pyval) list"
  drug_side_effects :: "(string \<times> pyval \<times> bool option) list"
  drug_targets :: "(string \<times> pyval) list"
  user_logs :: "(string \<times> string \<times> (string \<times> string) list) list"

definition is_table_empty :: "'a list \<Rightarrow> bool" where
  "is_table_empty table = (length table = 0)"

section \<open>The outside world of the import script\<close>

datatype error =
    ConnectionError | ReadError | ParserError
  | AttributeError | IndexError | ValueError | DatabaseError

text \<open>
  A member of a tar archive: its path, whether it is a regular file, and what
  \<^verbatim>\<open>pd.read_csv(tar.extractfile(m), sep=',', encoding='latin1')\<close> gives on its bytes
  (a frame, or the exception of the parser).
\<close>

record tar_member =
  m_name :: string
  m_isfile :: bool
  m_csv :: "error + dataframe"

text \<open>
  What the network answers: \<open>read_names\<close> is \<^verbatim>\<open>pd.read_csv(names_url, sep='\t',
  names=['stitch_id', 'common_name'])\<close>, the rows of the two named columns or the exception
  of the fetch; \<open>fetch_tar url\<close> is \<^verbatim>\<open>requests.get(url)\<close> followed by \<^verbatim>\<open>tarfile.open\<close>
  on the body, the members in archive order or the exception (network failure, malformed
  archive); \<open>insert_page\<close> is the page of the engine, the positive number of rows it packs
  into one \<^verbatim>\<open>INSERT\<close> statement.
\<close>

record env =
  read_names :: "error + (string \<times> string) list"
  fetch_tar :: "string \<Rightarrow> error + tar_member list"
  insert_page :: nat

datatype message =
    Downloading string | NoValidDataFile | Extracting string
  | Phase1Skipped | Phase1Header | Phase1Processing nat | Phase1Successful
  | Phase2Skipped | Phase2Header | Phase2CatalogImported nat
  | Phase2ValidationSuccessful nat | Phase2Completed | Phase2Error error
  | Phase3Header | Phase3Identified nat | Phase3CatalogUpdated nat | Phase3Completed
  | Phase4Header | Phase4Imported nat

text \<open>
  What a call leaves behind: the store, the lines printed, the insert statements that
  reached the store (table and row count, in order) and the exception that left the call,
  if any.
\<close>

record outcome =
  db_after :: db
  printed :: "message list"
  inserts :: "(string \<times> nat) list"
  raised :: "error option"

section \<open>The archive fetcher\<close>

definition basename :: "string \<Rightarrow> string" where
  "basename p = rev (takeWhile (\<lambda>c. c \<noteq> CHR ''/'') (rev p))"

definition valid_member :: "tar_member \<Rightarrow> bool" where
  "valid_member m = (m_isfile m \<and> \<not> prefix ''._'' (basename (m_name m)))"

definition strip_columns :: "dataframe \<Rightarrow> dataframe" where
  "strip_columns df = df\<lparr>columns := map py_strip (columns df)\<rparr>"

definition download_and_extract_gz ::
    "env \<Rightarrow> string \<Rightarrow> message list \<times> (error + dataframe option)" where
  "download_and_extract_gz e url =
     (case fetch_tar e url of
        Inl err \<Rightarrow> ([Downloading url], Inl err)
      | Inr tar \<Rightarrow>
          (case filter valid_member tar of
             [] \<Rightarrow> ([Downloading url, NoValidDataFile], Inr None)
           | target_file # _ \<Rightarrow>
               ([Downloading url, Extracting (m_name target_file)],
                case m_csv target_file of
                  Inl err \<Rightarrow> Inl err
                | Inr df \<Rightarrow> Inr (Some (strip_columns df)))))"

section \<open>The four import phases\<close>

definition names_url :: string where
  "names_url = ''https://www.pingzhang.net/bak/ddi/drug_569.txt''"

definition mono_url :: string where
  "mono_url = ''http://snap.stanford.edu/decagon/bio-decagon-mono.tar.gz''"

definition combo_url :: string where
  "combo_url = ''http://snap.stanford.edu/decagon/bio-decagon-combo.tar.gz''"

definition targets_url :: string where
  "targets_url = ''http://snap.stanford.edu/decagon/bio-decagon-targets.tar.gz''"

text \<open>
  \<^verbatim>\<open>SELECT stitch_id FROM drugs\<close> with every value put through the identifier
  normalisation: the list \<^verbatim>\<open>existing_ids\<close> of Phase 2 and the set \<^verbatim>\<open>existing_drugs\<close> of
  Phases 3 and 4.
\<close>

definition existing_drugs :: "db \<Rightarrow> string list" where
  "existing_drugs s = map (\<lambda>(stitch_id, common_name). normalize_id stitch_id) (drugs s)"

definition import_phase_1_names :: "env \<Rightarrow> db \<Rightarrow> outcome" where
  "import_phase_1_names e s =
     (if \<not> is_table_empty (drugs s) then
        \<lparr>db_after = s, printed = [Phase1Skipped], inserts = [], raised = None\<rparr>
      else
        (case read_names e of
           Inl err \<Rightarrow>
             \<lparr>db_after = s, printed = [Phase1Header], inserts = [], raised = Some err\<rparr>
         | Inr fetched \<Rightarrow>
             (let df_names = drop_duplicates fst fetched;
                  batches = to_sql None df_names
              in \<lparr>db_after = s\<lparr>drugs := drugs s @ concat batches\<rparr>,
                  printed = [Phase1Header, Phase1Processing (length df_names), Phase1Successful],
                  inserts = statements (insert_page e) ''drugs'' batches,
                  raised = None\<rparr>)))"

text \<open>
  The frames Phase 2 builds from the monotherapy table \<open>df\<close> (columns: drug, side-effect
  code, side-effect name): \<^verbatim>\<open>se_catalog\<close>, and \<^verbatim>\<open>drug_se_filtered\<close>, the (drug, code) pairs
  with the drug cast to text and normalised, kept when the drug is among the stored
  identifiers.
\<close>

definition mono_se_catalog :: "dataframe \<Rightarrow> (pyval \<times> pyval) list" where
  "mono_se_catalog df = drop_duplicates fst (map (\<lambda>r. (cell r 1, cell r 2)) (rows df))"

definition mono_drug_se_filtered :: "db \<Rightarrow> dataframe \<Rightarrow> (string \<times> pyval) list" where
  "mono_drug_se_filtered s df =
     (let drug_se = map (\<lambda>r. (normalize_id (py_str (cell r 0)), cell r 1)) (rows df);
          existing_ids = existing_drugs s
      in filter (\<lambda>(drug_id, se_code). drug_id \<in> set existing_ids) drug_se)"

text \<open>
  The body of the \<^verbatim>\<open>try\<close> block of Phase 2, with the exception that leaves it. Renaming the
  columns of a selection to two names raises \<^verbatim>\<open>ValueError\<close> when the selection has more than
  two columns, which is when a selected name stands over several columns: for the catalog
  before anything is written, for the links after the catalog is written.
\<close>

definition phase_2_try :: "env \<Rightarrow> db \<Rightarrow> dataframe option \<Rightarrow> outcome" where
  "phase_2_try e s df_mono =
     (case df_mono of
        None \<Rightarrow> \<lparr>db_after = s, printed = [], inserts = [], raised = Some AttributeError\<rparr>
      | Some df \<Rightarrow>
          if length (columns df) < 3 then
            \<lparr>db_after = s, printed = [], inserts = [], raised = Some IndexError\<rparr>
          else if \<not> (unique_label df 1 \<and> unique_label df 2) then
            \<lparr>db_after = s, printed = [], inserts = [], raised = Some ValueError\<rparr>
          else
            (let se_catalog = mono_se_catalog df;
                 catalog_batches = to_sql None se_catalog;
                 s1 = s\<lparr>side_effects := side_effects s @ concat catalog_batches\<rparr>;
                 catalog_inserts = statements (insert_page e) ''side_effects'' catalog_batches
             in if \<not> unique_label df 0 then
                  \<lparr>db_after = s1,
                   printed = [Phase2CatalogImported (length se_catalog)],
                   inserts = catalog_inserts,
                   raised = Some ValueError\<rparr>
                else
                  (let drug_se_filtered = mono_drug_se_filtered s1 df
                   in if length drug_se_filtered > 0 then
                        (let link_batches = to_sql (Some 1000) drug_se_filtered
                         in \<lparr>db_after = s1\<lparr>drug_side_effects := drug_side_effects s1 @
                                map (\<lambda>(drug_id, se_code). (drug_id, se_code, None))
                                  (concat link_batches)\<rparr>,
                             printed = [Phase2CatalogImported (length se_catalog),
                                Phase2ValidationSuccessful (length drug_se_filtered),
                                Phase2Completed],
                             inserts = catalog_inserts @
                                statements (insert_page e) ''drug_side_effects'' link_batches,
                             raised = None\<rparr>)
                      else
                        \<lparr>db_after = s1,
                         printed = [Phase2CatalogImported (length se_catalog)],
                         inserts = catalog_inserts,
                         raised = None\<rparr>)))"

definition import_phase_2_mono :: "env \<Rightarrow> db \<Rightarrow> outcome" where
  "import_phase_2_mono e s =
     (if \<not> is_table_empty (side_effects s) then
        \<lparr>db_after = s, printed = [Phase2Skipped], inserts = [], raised = None\<rparr>
      else
        (case download_and_extract_gz e mono_url of
           (out, Inl err) \<Rightarrow>
             \<lparr>db_after = s, printed = Phase2Header # out, inserts = [], raised = Some err\<rparr>
         | (out, Inr df_mono) \<Rightarrow>
             (let r = phase_2_try e s df_mono
              in case raised r of
                   None \<Rightarrow> r\<lparr>printed := Phase2Header # out @ printed r\<rparr>
                 | Some err \<Rightarrow>
                     r\<lparr>printed := Phase2Header # out @ printed r @ [Phase2Error err],
                       raised := None\<rparr>)))"

text \<open>
  The frames Phase 3 builds from the combination table \<open>df\<close> (columns: drug A, drug B,
  side-effect code, side-effect name): \<^verbatim>\<open>df_filtered\<close>, the rows with both drugs cast to
  text and normalised, kept when both are among the stored identifiers; \<^verbatim>\<open>new_se_to_add\<close>,
  the first (code, name) of every code of \<^verbatim>\<open>df_filtered\<close> that is not found among the codes
  read from the catalog; \<^verbatim>\<open>combo_rows\<close>, the (drug A, code) pairs followed by the
  (drug B, code) pairs, without repeated pairs. The codes are compared as they are read:
  the codes of the table as parsed, the codes of the catalog as text.
\<close>

definition combo_df_filtered ::
    "db \<Rightarrow> dataframe \<Rightarrow> (string \<times> string \<times> pyval \<times> pyval) list" where
  "combo_df_filtered s df =
     (let existing = existing_drugs s;
          normalized =
            map (\<lambda>r. (normalize_id (py_str (cell r 0)), normalize_id (py_str (cell r 1)),
                   cell r 2, cell r 3))
              (rows df)
      in filter (\<lambda>(d1, d2, se_id, se_name). d1 \<in> set existing \<and> d2 \<in> set existing)
           normalized)"

definition combo_new_se_to_add :: "db \<Rightarrow> dataframe \<Rightarrow> (pyval \<times> pyval) list" where
  "combo_new_se_to_add s df =
     (let existing_se = map (\<lambda>(se_code, se_name). sql_text se_code) (side_effects s);
          new_se =
            drop_duplicates fst
              (map (\<lambda>(d1, d2, se_id, se_name). (se_id, se_name)) (combo_df_filtered s df))
      in filter (\<lambda>(se_code, se_name). \<not> py_isin se_code existing_se) new_se)"

definition combo_rows :: "db \<Rightarrow> dataframe \<Rightarrow> (string \<times> pyval) list" where
  "combo_rows s df =
     drop_duplicates (\<lambda>row. row)
       (map (\<lambda>(d1, d2, se_id, se_name). (d1, se_id)) (combo_df_filtered s df) @
        map (\<lambda>(d1, d2, se_id, se_name). (d2, se_id)) (combo_df_filtered s df))"

text \<open>
  Phase 3 has no \<^verbatim>\<open>try\<close>. A drug column whose name stands over several columns is a frame,
  which has no \<^verbatim>\<open>.str\<close>: \<^verbatim>\<open>AttributeError\<close>. A code or name column whose name stands over
  several columns makes the renaming of the catalog selection fail, after the count of the
  surviving rows is printed: \<^verbatim>\<open>ValueError\<close>. Both leave before anything is written.
\<close>

definition import_phase_3_combo :: "env \<Rightarrow> db \<Rightarrow> outcome" where
  "import_phase_3_combo e s =
     (case download_and_extract_gz e combo_url of
        (out, Inl err) \<Rightarrow>
          \<lparr>db_after = s, printed = Phase3Header # out, inserts = [], raised = Some err\<rparr>
      | (out, Inr None) \<Rightarrow>
          \<lparr>db_after = s, printed = Phase3Header # out, inserts = [],
           raised = Some AttributeError\<rparr>
      | (out, Inr (Some df_combo)) \<Rightarrow>
          if length (columns df_combo) < 4 then
            \<lparr>db_after = s, printed = Phase3Header # out, inserts = [],
             raised = Some IndexError\<rparr>
          else if \<not> (unique_label df_combo 0 \<and> unique_label df_combo 1) then
            \<lparr>db_after = s, printed = Phase3Header # out, inserts = [],
             raised = Some AttributeError\<rparr>
          else
            (let df_filtered = combo_df_filtered s df_combo
             in if \<not> (unique_label df_combo 2 \<and> unique_label df_combo 3) then
                  \<lparr>db_after = s,
                   printed = Phase3Header # out @ [Phase3Identified (length df_filtered)],
                   inserts = [], raised = Some ValueError\<rparr>
                else
                  (let new_se_to_add = combo_new_se_to_add s df_combo;
                       catalog_batches = to_sql None new_se_to_add;
                       s1 = (if new_se_to_add \<noteq> []
                             then s\<lparr>side_effects := side_effects s @ concat catalog_batches\<rparr>
                             else s);
                       link_batches = to_sql (Some 1000) (combo_rows s df_combo)
                   in \<lparr>db_after = s1\<lparr>drug_side_effects := drug_side_effects s1 @
                          map (\<lambda>(drug_id, se_code). (drug_id, se_code, Some True))
                            (concat link_batches)\<rparr>,
                       printed =
                          Phase3Header # out @ [Phase3Identified (length df_filtered)] @
                          (if new_se_to_add \<noteq> []
                           then [Phase3CatalogUpdated (length new_se_to_add)] else []) @
                          [Phase3Completed],
                       inserts =
                          (if new_se_to_add \<noteq> []
                           then statements (insert_page e) ''side_effects'' catalog_batches
                           else []) @
                          statements (insert_page e) ''drug_side_effects'' link_batches,
                       raised = None\<rparr>)))"

text \<open>
  The frame Phase 4 builds from the targets table \<open>df\<close> (columns: drug, protein): the rows
  with the drug cast to text and normalised, kept when the drug is among the stored
  identifiers, without repeated rows. A drug column whose name stands over several columns
  raises \<^verbatim>\<open>AttributeError\<close>; renaming the columns of the frame to the two table columns
  raises \<^verbatim>\<open>ValueError\<close> unless the frame has exactly two columns.
\<close>

definition targets_df_filtered :: "db \<Rightarrow> dataframe \<Rightarrow> (string \<times> pyval) list" where
  "targets_df_filtered s df =
     (let existing = existing_drugs s;
          normalized = map (\<lambda>r. (normalize_id (py_str (cell r 0)), cell r 1)) (rows df)
      in drop_duplicates (\<lambda>row. row)
           (filter (\<lambda>(drug_id, protein_id). drug_id \<in> set existing) normalized))"

definition import_phase_4_targets :: "env \<Rightarrow> db \<Rightarrow> outcome" where
  "import_phase_4_targets e s =
     (case download_and_extract_gz e targets_url of
        (out, Inl err) \<Rightarrow>
          \<lparr>db_after = s, printed = Phase4Header # out, inserts = [], raised = Some err\<rparr>
      | (out, Inr None) \<Rightarrow>
          \<lparr>db_after = s, printed = Phase4Header # out, inserts = [],
           raised = Some AttributeError\<rparr>
      | (out, Inr (Some df_targets)) \<Rightarrow>
          if length (columns df_targets) < 2 then
            \<lparr>db_after = s, printed = Phase4Header # out, inserts = [],
             raised = Some IndexError\<rparr>
          else if \<not> unique_label df_targets 0 then
            \<lparr>db_after = s, printed = Phase4Header # out, inserts = [],
             raised = Some AttributeError\<rparr>
          else if length (columns df_targets) \<noteq> 2 then
            \<lparr>db_after = s, printed = Phase4Header # out, inserts = [],
             raised = Some ValueError\<rparr>
          else
            (let df_filtered = targets_df_filtered s df_targets;
                 batches = to_sql None df_filtered
             in \<lparr>db_after = s\<lparr>drug_targets := drug_targets s @ concat batches\<rparr>,
                 printed = Phase4Header # out @ [Phase4Imported (length df_filtered)],
                 inserts = statements (insert_page e) ''drug_targets'' batches,
                 raised = None\<rparr>))"

text \<open>
  The orchestration block: the four calls in order. An exception that leaves a call leaves
  the script; the calls after it do not run.
\<close>

definition and_then :: "outcome \<Rightarrow> (db \<Rightarrow> outcome) \<Rightarrow> outcome" where
  "and_then r next_call =
     (case raised r of
        Some err \<Rightarrow> r
      | None \<Rightarrow>
          (let r' = next_call (db_after r)
           in \<lparr>db_after = db_after r', printed = printed r @ printed r',
               inserts = inserts r @ inserts r', raised = raised r'\<rparr>))"

definition main_block :: "env \<Rightarrow> db \<Rightarrow> outcome" where
  "main_block e s =
     and_then
       (and_then
          (and_then (import_phase_1_names e s) (import_phase_2_mono e))
          (import_phase_3_combo e))
       (import_phase_4_targets e)"

section \<open>The serving layer: reporting a side effect\<close>

text \<open>
  \<^verbatim>\<open>TRIM(BOTH '''' FROM s)\<close>: the quote characters at the two ends of \<open>s\<close> are removed.
\<close>

definition sql_trim_quotes :: "string \<Rightarrow> string" where
  "sql_trim_quotes s = strip_by (\<lambda>c. c = quote) s"

text \<open>
  \<^verbatim>\<open>s LIKE pattern\<close> with the default escape character: \<^verbatim>\<open>%\<close> stands for any run of
  characters, \<^verbatim>\<open>_\<close> for any one character, a backslash makes the next pattern character
  stand for itself. (A pattern that ends in a lone backslash is an error in PostgreSQL; the
  patterns built here end in \<^verbatim>\<open>%\<close>.)
\<close>

fun like_match :: "string \<Rightarrow> string \<Rightarrow> bool" where
  "like_match [] [] = True"
| "like_match [] (c # s) = False"
| "like_match (p # ps) [] = (p = CHR ''%'' \<and> like_match ps [])"
| "like_match (p # ps) (c # s) =
     (if p = CHR ''%'' then like_match ps (c # s) \<or> like_match (p # ps) s
      else if p = CHR ''_'' then like_match ps s
      else if p = backslash then
        (case ps of [] \<Rightarrow> False | q # qs \<Rightarrow> c = q \<and> like_match qs s)
      else c = p \<and> like_match ps s)"

text \<open>
  \<^verbatim>\<open>ILIKE\<close> compares without regard to case: the pattern and the text are both put through
  the lower-casing of the database and then matched as by \<^verbatim>\<open>LIKE\<close>. Which letters that
  lower-casing folds is decided by the locale of the database, which the repository does
  not fix; it is the parameter \<open>lower\<close>.
\<close>

definition ilike :: "(string \<Rightarrow> string) \<Rightarrow> string \<Rightarrow> string \<Rightarrow> bool" where
  "ilike lower s pattern = like_match (lower pattern) (lower s)"

text \<open>
  The lower-casing of a database in the \<^verbatim>\<open>C\<close> locale: the letters \<^verbatim>\<open>A\<close> to \<^verbatim>\<open>Z\<close> are
  folded, every other character is kept.
\<close>

definition ascii_lower :: "char \<Rightarrow> char" where
  "ascii_lower c =
     (let n = of_char c :: nat in if 65 \<le> n \<and> n \<le> 90 then char_of (n + 32) else c)"

text \<open>
  The lower-casing of a database whose locale folds the letters of Latin-1: the letters
  \<^verbatim>\<open>A\<close> to \<^verbatim>\<open>Z\<close> and the accented capitals at the code points 192 to 222, the
  multiplication sign at 215 apart.
\<close>

definition latin1_lower :: "char \<Rightarrow> char" where
  "latin1_lower c =
     (let n = of_char c :: nat
      in if (65 \<le> n \<and> n \<le> 90) \<or> (192 \<le> n \<and> n \<le> 222 \<and> n \<noteq> 215)
         then char_of (n + 32) else c)"

text \<open>The request body \<^verbatim>\<open>SideEffectReport\<close>.\<close>

record side_effect_report =
  drug_name :: string
  symptom :: string

datatype response = Success | HTTPException nat

text \<open>
  A database session: the committed store and the rows of the open transaction. The
  store may refuse a statement or the commit; \<open>db_fault\<close> says where, if anywhere.
\<close>

type_synonym log_row = "string \<times> string \<times> (string \<times> string) list"

record session =
  store :: db
  pending :: "log_row list"

datatype db_fault = NoFault | ExecuteFails | CommitFails

definition execute_insert :: "db_fault \<Rightarrow> session \<Rightarrow> log_row \<Rightarrow> error + session" where
  "execute_insert fault sess row =
     (if fault = ExecuteFails then Inl DatabaseError
      else Inr (sess\<lparr>pending := pending sess @ [row]\<rparr>))"

definition commit :: "db_fault \<Rightarrow> session \<Rightarrow> error + session" where
  "commit fault sess =
     (if fault = CommitFails then Inl DatabaseError
      else Inr \<lparr>store = (store sess)\<lparr>user_logs := user_logs (store sess) @ pending sess\<rparr>,
                pending = []\<rparr>)"

definition rollback :: "session \<Rightarrow> session" where
  "rollback sess = sess\<lparr>pending := []\<rparr>"

text \<open>
  The validation query of \<^verbatim>\<open>report_side_effect\<close>:
  \<^verbatim>\<open>SELECT stitch_id, common_name FROM drugs WHERE TRIM(BOTH '''' FROM common_name) ILIKE :name\<close>
  with \<^verbatim>\<open>:name\<close> bound to the reported name between two \<^verbatim>\<open>%\<close>, and \<^verbatim>\<open>fetchone()\<close>.
\<close>

definition select_drug ::
    "(string \<Rightarrow> string) \<Rightarrow> db \<Rightarrow> string \<Rightarrow> (string \<times> string) option" where
  "select_drug lower d name =
     find (\<lambda>(stitch_id, common_name). ilike lower (sql_trim_quotes common_name) name) (drugs d)"

text \<open>
  The handler, on a fresh session of the store \<open>d\<close>; the session is closed when the request
  ends, which drops whatever was not committed. The result is the response and the store
  left behind.
\<close>

definition report_side_effect ::
    "(string \<Rightarrow> string) \<Rightarrow> db_fault \<Rightarrow> db \<Rightarrow> side_effect_report \<Rightarrow> response \<times> db" where
  "report_side_effect lower fault d report =
     (let sess = \<lparr>store = d, pending = []\<rparr>
      in case select_drug lower d (''%'' @ drug_name report @ ''%'') of
           None \<Rightarrow> (HTTPException 404, store sess)
         | Some drug \<Rightarrow>
             (let log_entry =
                    [(''drug_name'', drug_name report), (''reported_symptom'', symptom report)]
              in case execute_insert fault sess
                        (''SIDE_EFFECT_REPORT'', drug_name report, log_entry) of
                   Inl err \<Rightarrow> (HTTPException 500, store (rollback sess))
                 | Inr sess1 \<Rightarrow>
                     (case commit fault sess1 of
                        Inl err \<Rightarrow> (HTTPException 500, store (rollback sess1))
                      | Inr sess2 \<Rightarrow> (Success, store sess2))))"

section \<open>Notions used in the statements\<close>

text \<open>A reported name is \<open>pattern_free\<close> when it holds none of the pattern characters of \<^verbatim>\<open>LIKE\<close>.\<close>

definition pattern_free :: "string \<Rightarrow> bool" where
  "pattern_free name = list_all (\<lambda>c. c \<noteq> CHR ''%'' \<and> c \<noteq> CHR ''_'' \<and> c \<noteq> backslash) name"

text \<open>
  A lower-casing \<open>folds_letters\<close> by \<open>fc\<close> when it works character by character, as \<open>fc\<close>
  does, and \<open>fc\<close> leaves the three pattern characters, which are no letters, to themselves.
\<close>

definition folds_letters :: "(string \<Rightarrow> string) \<Rightarrow> (char \<Rightarrow> char) \<Rightarrow> bool" where
  "folds_letters lower fc =
     (lower = map fc \<and>
      (\<forall>c. (fc c = CHR ''%'') = (c = CHR ''%'') \<and> (fc c = CHR ''_'') = (c = CHR ''_'') \<and>
           (fc c = backslash) = (c = backslash)))"

text \<open>The row of \<open>user_logs\<close> that a report writes.\<close>

definition report_row :: "side_effect_report \<Rightarrow> log_row" where
  "report_row r =
     (''SIDE_EFFECT_REPORT'', drug_name r,
      [(''drug_name'', drug_name r), (''reported_symptom'', symptom r)])"

section \<open>Stores, feeds and requests of the scenarios\<close>

text \<open>
  The concrete inputs the theorems are run on: the stores and feeds of the scenarios of
  the specification, a feed and a store whose identifiers stand between quote characters,
  an archive with a directory and a metadata member in front of its data file, a network
  that is down (\<open>offline\<close>) and one that serves a given table for every archive
  (\<open>serving\<close>). The engine of the scenarios has the page 1000.
\<close>

definition empty_db :: db where
  "empty_db = \<lparr>drugs = [], side_effects = [], drug_side_effects = [], drug_targets = [],
     user_logs = []\<rparr>"

definition scenario_1_feed :: "(string \<times> string) list" where
  "scenario_1_feed =
     [(''CID001'', ''AspirinX''), (''CID001'', ''AspirinX-dup''), (''CID002'', ''Bcillin'')]"

definition two_drugs_db :: db where
  "two_drugs_db = empty_db\<lparr>drugs := [(''CID001'', ''AspirinX''), (''CID002'', ''Bcillin'')]\<rparr>"

definition populated_db :: db where
  "populated_db = two_drugs_db\<lparr>side_effects := [(Text ''SE01'', Text ''Headache'')]\<rparr>"

definition offline :: env where
  "offline = \<lparr>read_names = Inl ConnectionError, fetch_tar = (\<lambda>url. Inl ConnectionError),
     insert_page = 1000\<rparr>"

definition demo_frame :: dataframe where
  "demo_frame =
     \<lparr>columns = ['' STITCH'', ''Gene ''], rows = [[Text ''CID001'', Text ''P100'']]\<rparr>"

definition mac_archive :: "tar_member list" where
  "mac_archive =
     [\<lparr>m_name = ''bio-decagon'', m_isfile = False, m_csv = Inl ParserError\<rparr>,
      \<lparr>m_name = ''bio-decagon/._targets.csv'', m_isfile = True, m_csv = Inl ParserError\<rparr>,
      \<lparr>m_name = ''bio-decagon/targets.csv'', m_isfile = True, m_csv = Inr demo_frame\<rparr>,
      \<lparr>m_name = ''bio-decagon/other.csv'', m_isfile = True, m_csv = Inl ParserError\<rparr>]"

definition archive_of :: "dataframe \<Rightarrow> tar_member list" where
  "archive_of df = [\<lparr>m_name = ''data.csv'', m_isfile = True, m_csv = Inr df\<rparr>]"

definition serving :: "dataframe \<Rightarrow> env" where
  "serving df = offline\<lparr>fetch_tar := \<lambda>url. Inr (archive_of df)\<rparr>"

definition quoted :: "string \<Rightarrow> string" where
  "quoted s = quote # s @ [quote]"

definition quoted_feed :: "(string \<times> string) list" where
  "quoted_feed = [(quoted ''CID001'', ''AspirinX''), (quoted ''CID002'', ''Bcillin'')]"

definition quoted_drugs_db :: db where
  "quoted_drugs_db = empty_db\<lparr>drugs := quoted_feed\<rparr>"

definition scenario_2_frame :: dataframe where
  "scenario_2_frame =
     \<lparr>columns = [''STITCH'', ''Individual Side Effect'', ''Side Effect Name''],
      rows = [[Text ''CID001'', Text ''SE01'', Text ''Headache''],
        [Text ''CID999'', Text ''SE01'', Text ''Headache''],
        [Text ''CID002'', Text ''SE02'', Text ''Nausea'']]\<rparr>"

definition scenario_3_frame :: dataframe where
  "scenario_3_frame =
     \<lparr>columns = [''STITCH 1'', ''STITCH 2'', ''Polypharmacy Side Effect'', ''Side Effect Name''],
      rows = [[Text ''CID001'', Text ''CID002'', Text ''SE03'', Text ''Rash'']]\<rparr>"

definition numbered_feed :: "nat \<Rightarrow> (string \<times> string) list" where
  "numbered_feed n = map (\<lambda>i. (''CID'' @ replicate i CHR ''1'', ''drug'')) [0..<n]"

definition aspirin_report :: side_effect_report where
  "aspirin_report = \<lparr>drug_name = ''aspirin'', symptom = ''rash''\<rparr>"

definition underscore_report :: side_effect_report where
  "underscore_report = \<lparr>drug_name = ''_'', symptom = ''rash''\<rparr>"

text \<open>
  A store with an accented name and a report of that name in lower case; a store whose one
  name has a quote character inside and stands between quote characters.
\<close>

definition cafe_db :: db where
  "cafe_db = empty_db\<lparr>drugs := [(''CID003'', ''CAF'' @ [CHR 0xC9])]\<rparr>"

definition cafe_report :: side_effect_report where
  "cafe_report = \<lparr>drug_name = ''caf'' @ [CHR 0xE9], symptom = ''rash''\<rparr>"

definition embedded_name :: string where
  "embedded_name = ''Asp'' @ [quote] @ ''irin''"

definition embedded_db :: db where
  "embedded_db = empty_db\<lparr>drugs := [(''CID001'', quoted embedded_name)]\<rparr>"

section \<open>Properties of the string primitives\<close>

lemma strip_by_subset: "set (strip_by P s) \<subseteq> set s"
proof -
  have "set (strip_by P s) \<subseteq> set (rev (dropWhile P s))"
    unfolding strip_by_def using set_dropWhileD by fastforce
  also have "\<dots> \<subseteq> set s"
    using set_dropWhileD by fastforce
  finally show ?thesis .
qed

lemma strip_by_front: "dropWhile P (strip_by P s) = strip_by P s"
proof (cases "strip_by P s = []")
  case True
  then show ?thesis by simp
next
  case False
  define t where "t = dropWhile P s"
  define n where "n = length (takeWhile P (rev t))"
  have u: "strip_by P s = take (length t - n) t"
    unfolding strip_by_def t_def [symmetric] n_def
    by (simp add: dropWhile_eq_drop rev_drop)
  with False have "t \<noteq> []" and "0 < length t - n" by auto
  then have "hd (strip_by P s) = hd t"
    using u by simp
  moreover have "\<not> P (hd t)"
    using \<open>t \<noteq> []\<close> unfolding t_def by (rule hd_dropWhile)
  ultimately show ?thesis
    using False by (simp add: dropWhile_eq_self_iff)
qed

lemma strip_by_back: "dropWhile P (rev (strip_by P s)) = rev (strip_by P s)"
proof -
  have "rev (strip_by P s) = dropWhile P (rev (dropWhile P s))"
    by (simp add: strip_by_def)
  then show ?thesis
    by simp
qed

lemma strip_by_idem: "strip_by P (strip_by P s) = strip_by P s"
proof -
  have "strip_by P (strip_by P s) = rev (dropWhile P (rev (strip_by P s)))"
    unfolding strip_by_def [of P "strip_by P s"] by (simp only: strip_by_front)
  then show ?thesis
    by (simp add: strip_by_back)
qed

lemma remove_quotes_normalized: "remove_quotes (normalize_id s) = normalize_id s"
proof -
  have "set (normalize_id s) \<subseteq> set (remove_quotes s)"
    by (simp add: normalize_id_def py_strip_def strip_by_subset)
  then have "\<forall>c \<in> set (normalize_id s). c \<noteq> quote"
    by (auto simp: remove_quotes_def)
  then show ?thesis
    unfolding remove_quotes_def [of "normalize_id s"] by (simp only: filter_True)
qed

text \<open>
  Claim C7. Normalising is idempotent: for every string \<open>x\<close>,
  \<open>normalize_id (normalize_id x) = normalize_id x\<close>. A freshly fetched identifier (normalised once)
  and a stored value that was already normalised and is normalised again on reading give
  the same string.
\<close>

theorem normalize_idempotent: "normalize_id (normalize_id x) = normalize_id x"
proof -
  have "normalize_id (normalize_id x) = py_strip (normalize_id x)"
    unfolding normalize_id_def [of "normalize_id x"] by (simp only: remove_quotes_normalized)
  also have "\<dots> = normalize_id x"
    by (simp add: normalize_id_def py_strip_def strip_by_idem)
  finally show ?thesis .
qed

section \<open>Batches and de-duplication: basic facts\<close>

lemma concat_chunks: "0 < n \<Longrightarrow> concat (chunks n xs) = xs"
proof (induction n xs rule: chunks.induct)
  case (1 n xs)
  then show ?case
    by (subst chunks.simps) simp
qed

lemma chunks_bounded: "b \<in> set (chunks n xs) \<Longrightarrow> length b \<le> n"
proof (induction n xs rule: chunks.induct)
  case (1 n xs)
  from "1.prems" have ne: "\<not> (n = 0 \<or> xs = [])"
    by (subst (asm) chunks.simps) (auto split: if_splits)
  from "1.prems" ne have "b = take n xs \<or> b \<in> set (chunks n (drop n xs))"
    by (subst (asm) chunks.simps) simp
  then show ?case
    using "1.IH" [OF ne] by auto
qed

lemma concat_to_sql: "chunksize \<noteq> Some 0 \<Longrightarrow> concat (to_sql chunksize frame) = frame"
  by (cases chunksize) (simp_all add: to_sql_def concat_chunks)

lemma keep_first_subset: "set (keep_first key seen xs) \<subseteq> set xs"
  by (induction xs arbitrary: seen) auto

lemma keep_first_keys: "key ` set (keep_first key seen xs) = key ` set xs - set seen"
  by (induction xs arbitrary: seen) auto

lemma keep_first_distinct: "distinct (map key (keep_first key seen xs))"
proof (induction xs arbitrary: seen)
  case Nil
  then show ?case by simp
next
  case (Cons x xs)
  have "key x \<notin> key ` set (keep_first key (key x # seen) xs)"
    by (simp add: keep_first_keys)
  with Cons show ?case by simp
qed

lemma keep_first_subseq: "subseq (keep_first key seen xs) xs"
  by (induction xs arbitrary: seen) auto

lemma keep_first_map_of:
  "map_of (keep_first fst seen xs) k = (if k \<in> set seen then None else map_of xs k)"
proof (induction xs arbitrary: seen)
  case Nil
  then show ?case by simp
next
  case (Cons x xs)
  then show ?case by (cases x) auto
qed

lemma drop_duplicates_set: "set (drop_duplicates (\<lambda>row. row) xs) = set xs"
  using keep_first_keys [of "\<lambda>row. row" "[]" xs] by (simp add: drop_duplicates_def)

section \<open>Idempotent skip and the drug catalog\<close>

text \<open>
  Claim C2. Phase 1 on a store whose \<open>drugs\<close> table is not empty, and Phase 2 on a store
  whose \<open>side_effects\<close> table is not empty, issue no insert statement, print the skip line
  and return normally: the whole store is the one the phase started from.
\<close>

theorem populated_table_skips_phase:
  "(drugs s \<noteq> [] \<longrightarrow>
      import_phase_1_names e s =
        \<lparr>db_after = s, printed = [Phase1Skipped], inserts = [], raised = None\<rparr>) \<and>
   (side_effects s \<noteq> [] \<longrightarrow>
      import_phase_2_mono e s =
        \<lparr>db_after = s, printed = [Phase2Skipped], inserts = [], raised = None\<rparr>)"
  by (simp add: import_phase_1_names_def import_phase_2_mono_def is_table_empty_def)

theorem populated_table_skips_phase_witness:
  "drugs populated_db \<noteq> [] \<and> side_effects populated_db \<noteq> [] \<and>
   import_phase_1_names offline populated_db =
     \<lparr>db_after = populated_db, printed = [Phase1Skipped], inserts = [], raised = None\<rparr> \<and>
   import_phase_2_mono offline populated_db =
     \<lparr>db_after = populated_db, printed = [Phase2Skipped], inserts = [], raised = None\<rparr>"
  using populated_table_skips_phase [of populated_db offline]
  by (simp add: populated_db_def two_drugs_db_def empty_db_def)

lemma phase_1_fresh:
  assumes "drugs s = []" and "read_names e = Inr feed"
  shows "import_phase_1_names e s =
    \<lparr>db_after = s\<lparr>drugs := drop_duplicates fst feed\<rparr>,
     printed = [Phase1Header, Phase1Processing (length (drop_duplicates fst feed)),
       Phase1Successful],
     inserts = statements (insert_page e) ''drugs'' (to_sql None (drop_duplicates fst feed)),
     raised = None\<rparr>"
  using assms
  by (simp add: import_phase_1_names_def is_table_empty_def Let_def concat_to_sql)

text \<open>
  Claim C3. Phase 1 on an empty \<open>drugs\<close> table that fetches the feed \<open>feed\<close> leaves in
  \<open>drugs\<close> exactly the feed de-duplicated by identifier: the rows kept stand in feed order,
  no identifier occurs twice, and every identifier of the feed is mapped to the name of its
  first occurrence. For the feed of scenario 1 the table is CID001 with AspirinX and
  CID002 with Bcillin.
\<close>

theorem phase_1_keeps_first_occurrence:
  assumes "drugs s = []" and "read_names e = Inr feed"
  shows "drugs (db_after (import_phase_1_names e s)) = drop_duplicates fst feed \<and>
         subseq (drop_duplicates fst feed) feed \<and>
         distinct (map fst (drop_duplicates fst feed)) \<and>
         map_of (drop_duplicates fst feed) = map_of feed \<and>
         raised (import_phase_1_names e s) = None \<and>
         (feed = scenario_1_feed \<longrightarrow>
            drugs (db_after (import_phase_1_names e s)) =
              [(''CID001'', ''AspirinX''), (''CID002'', ''Bcillin'')])"
proof -
  have "map_of (drop_duplicates fst feed) = map_of feed"
    by (rule ext) (simp add: drop_duplicates_def keep_first_map_of)
  moreover have "drop_duplicates fst scenario_1_feed =
      [(''CID001'', ''AspirinX''), (''CID002'', ''Bcillin'')]"
    by (simp add: drop_duplicates_def scenario_1_feed_def)
  ultimately show ?thesis
    using phase_1_fresh [OF assms]
    by (simp add: drop_duplicates_def keep_first_subseq keep_first_distinct)
qed

theorem phase_1_keeps_first_occurrence_witness:
  "drugs empty_db = [] \<and>
   drugs (db_after (import_phase_1_names (offline\<lparr>read_names := Inr scenario_1_feed\<rparr>) empty_db)) =
     [(''CID001'', ''AspirinX''), (''CID002'', ''Bcillin'')] \<and>
   length (drugs (db_after
     (import_phase_1_names (offline\<lparr>read_names := Inr scenario_1_feed\<rparr>) empty_db))) = 2"
proof -
  let ?e = "offline\<lparr>read_names := Inr scenario_1_feed\<rparr>"
  have a: "drugs empty_db = []"
    by (simp add: empty_db_def)
  have b: "read_names ?e = Inr scenario_1_feed"
    by simp
  from phase_1_keeps_first_occurrence [OF a b]
  have "drugs (db_after (import_phase_1_names ?e empty_db)) =
      [(''CID001'', ''AspirinX''), (''CID002'', ''Bcillin'')]"
    by blast
  with a show ?thesis by simp
qed

section \<open>The archive fetcher: member selection\<close>

lemma basename_of_path:
  "CHR ''/'' \<notin> set file \<Longrightarrow> basename (dir @ CHR ''/'' # file) = file"
proof -
  assume "CHR ''/'' \<notin> set file"
  then have "takeWhile (\<lambda>c. c \<noteq> CHR ''/'') (rev file @ CHR ''/'' # rev dir) = rev file"
    by (subst takeWhile_append2) auto
  then show ?thesis
    by (simp add: basename_def)
qed

lemma basename_plain:
  "CHR ''/'' \<notin> set file \<Longrightarrow> basename file = file"
proof -
  assume "CHR ''/'' \<notin> set file"
  then have h: "takeWhile (\<lambda>c. c \<noteq> CHR ''/'') (rev file) = rev file"
    by (intro takeWhile_eq_all_conv [THEN iffD2]) auto
  show ?thesis
    unfolding basename_def h by simp
qed

lemma filter_first_valid:
  assumes "\<forall>x \<in> set skipped. \<not> P x" and "P m"
  shows "filter P (skipped @ m # rest) = m # filter P rest"
  using assms by (simp add: filter_empty_conv [THEN iffD2])

text \<open>
  Claim C6. Given an archive, the fetcher leaves out every member that is not a regular
  file or whose base file name starts with \<^verbatim>\<open>._\<close>. When no member remains it returns
  the absent result \<open>None\<close> and raises nothing. Otherwise it reads the first remaining member:
  the result is that member's table, rows untouched and header names stripped of
  surrounding whitespace (or the parser's exception when the member holds no table).
\<close>

theorem archive_fetcher_first_valid_member:
  assumes "fetch_tar e url = Inr tar"
  shows
    "((\<forall>m \<in> set tar. \<not> m_isfile m \<or> prefix ''._'' (basename (m_name m))) \<longrightarrow>
        snd (download_and_extract_gz e url) = Inr None) \<and>
     (tar = skipped @ m # rest \<and>
      (\<forall>x \<in> set skipped. \<not> m_isfile x \<or> prefix ''._'' (basename (m_name x))) \<and>
      m_isfile m \<and> \<not> prefix ''._'' (basename (m_name m)) \<longrightarrow>
        snd (download_and_extract_gz e url) =
          (case m_csv m of Inl err \<Rightarrow> Inl err | Inr df \<Rightarrow> Inr (Some (strip_columns df)))) \<and>
     rows (strip_columns df) = rows df \<and>
     columns (strip_columns df) = map py_strip (columns df)"
proof -
  have none: "snd (download_and_extract_gz e url) = Inr None"
    if "\<forall>m \<in> set tar. \<not> m_isfile m \<or> prefix ''._'' (basename (m_name m))"
  proof -
    from that have "filter valid_member tar = []"
      by (auto simp: filter_empty_conv valid_member_def)
    with assms show ?thesis
      by (simp add: download_and_extract_gz_def)
  qed
  have first: "snd (download_and_extract_gz e url) =
      (case m_csv m of Inl err \<Rightarrow> Inl err | Inr df \<Rightarrow> Inr (Some (strip_columns df)))"
    if "tar = skipped @ m # rest"
      and "\<forall>x \<in> set skipped. \<not> m_isfile x \<or> prefix ''._'' (basename (m_name x))"
      and "m_isfile m" and "\<not> prefix ''._'' (basename (m_name m))"
  proof -
    from that have "filter valid_member tar = m # filter valid_member rest"
      by (intro filter_first_valid [of skipped valid_member m rest, folded that(1)])
        (auto simp: valid_member_def)
    with assms show ?thesis
      by (simp add: download_and_extract_gz_def)
  qed
  show ?thesis
    using none first by (simp add: strip_columns_def)
qed

theorem archive_fetcher_first_valid_member_witness:
  "snd (download_and_extract_gz (offline\<lparr>fetch_tar := \<lambda>url. Inr mac_archive\<rparr>) targets_url) =
     Inr (Some \<lparr>columns = [''STITCH'', ''Gene''],
       rows = [[Text ''CID001'', Text ''P100'']]\<rparr>) \<and>
   snd (download_and_extract_gz (offline\<lparr>fetch_tar := \<lambda>url. Inr (take 2 mac_archive)\<rparr>)
     targets_url) = Inr None"
proof -
  let ?e = "offline\<lparr>fetch_tar := \<lambda>url. Inr mac_archive\<rparr>"
  let ?e2 = "offline\<lparr>fetch_tar := \<lambda>url. Inr (take 2 mac_archive)\<rparr>"
  have a: "fetch_tar ?e targets_url = Inr mac_archive" by simp
  have b: "fetch_tar ?e2 targets_url = Inr (take 2 mac_archive)" by simp
  have "snd (download_and_extract_gz ?e targets_url) = Inr (Some (strip_columns demo_frame))"
    using archive_fetcher_first_valid_member [OF a, of "take 2 mac_archive" "mac_archive ! 2"
      "drop 3 mac_archive" demo_frame]
    by (simp add: mac_archive_def basename_def)
  moreover have "snd (download_and_extract_gz ?e2 targets_url) = Inr None"
    using archive_fetcher_first_valid_member [OF b, of "[]" "mac_archive ! 2" "[]" demo_frame]
    by (simp add: mac_archive_def basename_def)
  moreover have "strip_columns demo_frame =
      \<lparr>columns = [''STITCH'', ''Gene''], rows = [[Text ''CID001'', Text ''P100'']]\<rparr>"
    by (simp add: strip_columns_def demo_frame_def py_strip_def strip_by_def py_isspace_def)
  ultimately show ?thesis by simp
qed

section \<open>Exceptions of the phases\<close>

lemma phase_1_raised:
  "raised (import_phase_1_names e s) =
     (if drugs s \<noteq> [] then None
      else case read_names e of Inl err \<Rightarrow> Some err | Inr feed \<Rightarrow> None)"
  by (simp add: import_phase_1_names_def is_table_empty_def Let_def split: sum.splits)

lemma phase_2_try_raised:
  "raised (phase_2_try e s d) =
     (case d of
        None \<Rightarrow> Some AttributeError
      | Some df \<Rightarrow>
          if length (columns df) < 3 then Some IndexError
          else if \<not> (unique_label df 1 \<and> unique_label df 2 \<and> unique_label df 0)
            then Some ValueError
          else None)"
  by (simp add: phase_2_try_def Let_def split: option.splits)

lemma phase_2_raised:
  "raised (import_phase_2_mono e s) =
     (if side_effects s \<noteq> [] then None
      else case snd (download_and_extract_gz e mono_url) of
             Inl err \<Rightarrow> Some err
           | Inr df_mono \<Rightarrow> None)"
  by (simp add: import_phase_2_mono_def is_table_empty_def Let_def
      split: prod.splits sum.splits option.splits)

lemma phase_3_raised:
  "raised (import_phase_3_combo e s) =
     (case snd (download_and_extract_gz e combo_url) of
        Inl err \<Rightarrow> Some err
      | Inr None \<Rightarrow> Some AttributeError
      | Inr (Some df) \<Rightarrow>
          if length (columns df) < 4 then Some IndexError
          else if \<not> (unique_label df 0 \<and> unique_label df 1) then Some AttributeError
          else if \<not> (unique_label df 2 \<and> unique_label df 3) then Some ValueError
          else None)"
  by (simp add: import_phase_3_combo_def Let_def split: prod.splits sum.splits option.splits)

lemma phase_4_raised:
  "raised (import_phase_4_targets e s) =
     (case snd (download_and_extract_gz e targets_url) of
        Inl err \<Rightarrow> Some err
      | Inr None \<Rightarrow> Some AttributeError
      | Inr (Some df) \<Rightarrow>
          if length (columns df) < 2 then Some IndexError
          else if \<not> unique_label df 0 then Some AttributeError
          else if length (columns df) \<noteq> 2 then Some ValueError
          else None)"
  by (simp add: import_phase_4_targets_def Let_def split: prod.splits sum.splits option.splits)

section \<open>Failures and the orchestration block\<close>

lemma and_then_raised:
  "raised (and_then r next_call) =
     (case raised r of Some err \<Rightarrow> Some err | None \<Rightarrow> raised (next_call (db_after r)))"
  by (simp add: and_then_def Let_def split: option.splits)

lemma and_then_printed:
  "printed (and_then r next_call) =
     (case raised r of Some err \<Rightarrow> printed r
      | None \<Rightarrow> printed r @ printed (next_call (db_after r)))"
  by (simp add: and_then_def Let_def split: option.splits)

lemma phase_3_header: "Phase3Header \<in> set (printed (import_phase_3_combo e s))"
  by (simp add: import_phase_3_combo_def Let_def split: prod.splits sum.splits option.splits)

lemma phase_2_logged:
  assumes "side_effects s = []" and "snd (download_and_extract_gz e mono_url) = Inr d"
    and "raised (phase_2_try e s d) = Some err"
  shows "last (printed (import_phase_2_mono e s)) = Phase2Error err"
proof -
  obtain out where "download_and_extract_gz e mono_url = (out, Inr d)"
    using assms(2) by (cases "download_and_extract_gz e mono_url") simp
  with assms(1,3) show ?thesis
    by (simp add: import_phase_2_mono_def is_table_empty_def Let_def)
qed

text \<open>
  Claim C5 (amended). A failure that arises in Phase 2 after its archive fetch has returned
  (the absent table of an archive with no valid member, a table of fewer than three
  columns) is caught at the phase boundary and logged as the last line of the phase; Phase 2
  then returns normally, and when Phase 1 has returned the orchestrator goes on to Phase 3.
  A failure of the fetch itself (network failure, malformed archive, unreadable member) is
  caught by no phase: it leaves Phase 1, 2, 3 or 4 as an exception, and from Phase 1 it ends
  the run of the orchestrator.
\<close>

theorem phase_2_failures_are_caught:
  "(snd (download_and_extract_gz e mono_url) = Inr d \<longrightarrow>
      raised (import_phase_2_mono e s) = None) \<and>
   (side_effects s = [] \<and> snd (download_and_extract_gz e mono_url) = Inr None \<longrightarrow>
      last (printed (import_phase_2_mono e s)) = Phase2Error AttributeError) \<and>
   (side_effects s = [] \<and> snd (download_and_extract_gz e mono_url) = Inr (Some df) \<and>
    length (columns df) < 3 \<longrightarrow>
      last (printed (import_phase_2_mono e s)) = Phase2Error IndexError) \<and>
   (raised (import_phase_1_names e s) = None \<and>
    snd (download_and_extract_gz e mono_url) = Inr d \<longrightarrow>
      Phase3Header \<in> set (printed (main_block e s))) \<and>
   (drugs s = [] \<and> read_names e = Inl err \<longrightarrow>
      raised (import_phase_1_names e s) = Some err \<and> raised (main_block e s) = Some err) \<and>
   (side_effects s = [] \<and> snd (download_and_extract_gz e mono_url) = Inl err \<longrightarrow>
      raised (import_phase_2_mono e s) = Some err) \<and>
   (snd (download_and_extract_gz e combo_url) = Inl err \<longrightarrow>
      raised (import_phase_3_combo e s) = Some err) \<and>
   (snd (download_and_extract_gz e targets_url) = Inl err \<longrightarrow>
      raised (import_phase_4_targets e s) = Some err)"
proof -
  have a: "raised (import_phase_2_mono e s') = None"
    if "snd (download_and_extract_gz e mono_url) = Inr d" for s'
    using that by (simp add: phase_2_raised)
  have b: "last (printed (import_phase_2_mono e s)) = Phase2Error AttributeError"
    if "side_effects s = []" "snd (download_and_extract_gz e mono_url) = Inr None"
    using phase_2_logged [OF that, of AttributeError] by (simp add: phase_2_try_raised)
  have c: "last (printed (import_phase_2_mono e s)) = Phase2Error IndexError"
    if "side_effects s = []" "snd (download_and_extract_gz e mono_url) = Inr (Some df)"
      "length (columns df) < 3"
    using phase_2_logged [OF that(1,2), of IndexError] that(3) by (simp add: phase_2_try_raised)
  have d: "Phase3Header \<in> set (printed (main_block e s))"
    if "raised (import_phase_1_names e s) = None"
      "snd (download_and_extract_gz e mono_url) = Inr d"
    using that a [OF that(2)]
    by (simp add: main_block_def and_then_printed and_then_raised phase_3_header
        split: option.splits)
  have f: "raised (import_phase_1_names e s) = Some err \<and> raised (main_block e s) = Some err"
    if "drugs s = []" "read_names e = Inl err"
    using that by (simp add: main_block_def and_then_raised phase_1_raised)
  show ?thesis
    using a [of s] b c d f
    by (simp add: phase_2_raised phase_3_raised phase_4_raised)
qed

theorem phase_2_failures_are_caught_witness:
  "raised (import_phase_2_mono (offline\<lparr>fetch_tar := \<lambda>url. Inr (take 2 mac_archive)\<rparr>)
     two_drugs_db) = None \<and>
   last (printed (import_phase_2_mono (offline\<lparr>fetch_tar := \<lambda>url. Inr (take 2 mac_archive)\<rparr>)
     two_drugs_db)) = Phase2Error AttributeError \<and>
   Phase3Header \<in> set (printed (main_block
     (offline\<lparr>fetch_tar := \<lambda>url. Inr (take 2 mac_archive)\<rparr>) two_drugs_db)) \<and>
   raised (import_phase_3_combo offline two_drugs_db) = Some ConnectionError"
proof -
  let ?e = "offline\<lparr>fetch_tar := \<lambda>url. Inr (take 2 mac_archive)\<rparr>"
  have d: "snd (download_and_extract_gz ?e mono_url) = Inr None"
    by (simp add: download_and_extract_gz_def mac_archive_def valid_member_def basename_def)
  have s: "side_effects two_drugs_db = []" "drugs two_drugs_db \<noteq> []"
    by (simp_all add: two_drugs_db_def empty_db_def)
  then have p: "raised (import_phase_1_names ?e two_drugs_db) = None"
    by (simp add: phase_1_raised)
  have o: "snd (download_and_extract_gz offline combo_url) = Inl ConnectionError"
    by (simp add: download_and_extract_gz_def offline_def)
  from phase_2_failures_are_caught [of ?e None two_drugs_db] d s p
    phase_2_failures_are_caught [of offline None two_drugs_db _ ConnectionError] o
  show ?thesis
    by simp
qed

text \<open>
  Claim C5 as stated fails. With the network down and an empty store, the fetch of Phase 1
  raises, the exception leaves the orchestrator and no later phase starts. With Phases 1
  and 2 skipped on a populated store, the fetch of Phase 3 raises and Phase 4 never starts.
\<close>

theorem uncaught_fetch_failure_counterexample:
  "raised (main_block offline empty_db) = Some ConnectionError \<and>
   printed (main_block offline empty_db) = [Phase1Header] \<and>
   raised (main_block offline populated_db) = Some ConnectionError \<and>
   printed (main_block offline populated_db) =
     [Phase1Skipped, Phase2Skipped, Phase3Header, Downloading combo_url]"
  by (simp add: main_block_def and_then_def import_phase_1_names_def import_phase_2_mono_def
      import_phase_3_combo_def download_and_extract_gz_def is_table_empty_def offline_def
      empty_db_def populated_db_def two_drugs_db_def Let_def)

section \<open>Insert statements and their rows\<close>

lemma chunks_Nil: "chunks n [] = []"
  by (subst chunks.simps) simp

lemma executemany_bounded: "(t, n) \<in> set (executemany page table params) \<Longrightarrow> n \<le> page"
  by (auto simp: executemany_def dest: chunks_bounded)

lemma executemany_table: "(t, n) \<in> set (executemany page table params) \<Longrightarrow> t = table"
  by (auto simp: executemany_def)

lemma chunk_within: "b \<in> set (chunks n xs) \<Longrightarrow> length b \<le> length xs"
proof (induction n xs rule: chunks.induct)
  case (1 n xs)
  from "1.prems" have ne: "\<not> (n = 0 \<or> xs = [])"
    by (subst (asm) chunks.simps) (auto split: if_splits)
  from "1.prems" ne have "b = take n xs \<or> b \<in> set (chunks n (drop n xs))"
    by (subst (asm) chunks.simps) simp
  then show ?case
    using "1.IH" [OF ne] by auto
qed

lemma executemany_within: "(t, n) \<in> set (executemany page table params) \<Longrightarrow> n \<le> length params"
  by (auto simp: executemany_def dest: chunk_within)

lemma executemany_rows:
  "0 < page \<Longrightarrow> sum_list (map snd (executemany page table params)) = length params"
proof -
  assume "0 < page"
  then have "length (concat (chunks page params)) = length params"
    by (simp add: concat_chunks)
  then show ?thesis
    by (simp add: executemany_def length_concat comp_def)
qed

lemma statements_bounded: "(t, n) \<in> set (statements page table batches) \<Longrightarrow> n \<le> page"
  by (auto simp: statements_def dest: executemany_bounded)

lemma statements_table: "(t, n) \<in> set (statements page table batches) \<Longrightarrow> t = table"
  by (auto simp: statements_def dest: executemany_table)

lemma statements_chunked:
  "(t, n) \<in> set (statements page table (to_sql (Some k) frame)) \<Longrightarrow> n \<le> k"
proof -
  assume "(t, n) \<in> set (statements page table (to_sql (Some k) frame))"
  then obtain b where "b \<in> set (chunks k frame)" and "(t, n) \<in> set (executemany page table b)"
    by (auto simp: statements_def to_sql_def)
  then have "length b \<le> k" and "n \<le> length b"
    by (auto dest: chunks_bounded executemany_within)
  then show ?thesis by simp
qed

lemma statements_rows:
  "0 < page \<Longrightarrow> sum_list (map snd (statements page table batches)) = length (concat batches)"
  by (induction batches) (simp_all add: statements_def executemany_rows)

lemma phase_1_inserts:
  "(t, n) \<in> set (inserts (import_phase_1_names e s)) \<Longrightarrow> n \<le> insert_page e"
  by (auto simp: import_phase_1_names_def Let_def split: if_splits sum.splits
      dest: statements_bounded)

lemma phase_2_try_inserts:
  "(t, n) \<in> set (inserts (phase_2_try e s d)) \<Longrightarrow>
     n \<le> insert_page e \<and> (t = ''drug_side_effects'' \<longrightarrow> n \<le> 1000)"
  by (auto simp: phase_2_try_def Let_def split: option.splits if_splits
      dest: statements_bounded statements_table statements_chunked)

lemma phase_2_inserts:
  "(t, n) \<in> set (inserts (import_phase_2_mono e s)) \<Longrightarrow>
     n \<le> insert_page e \<and> (t = ''drug_side_effects'' \<longrightarrow> n \<le> 1000)"
proof -
  assume a: "(t, n) \<in> set (inserts (import_phase_2_mono e s))"
  have "inserts (import_phase_2_mono e s) = [] \<or>
      (\<exists>d. inserts (import_phase_2_mono e s) = inserts (phase_2_try e s d))"
    by (auto simp: import_phase_2_mono_def Let_def split: prod.splits sum.splits option.splits)
  with a show ?thesis
    by (auto dest: phase_2_try_inserts)
qed

lemma phase_3_inserts:
  "(t, n) \<in> set (inserts (import_phase_3_combo e s)) \<Longrightarrow>
     n \<le> insert_page e \<and> (t = ''drug_side_effects'' \<longrightarrow> n \<le> 1000)"
  by (auto simp: import_phase_3_combo_def Let_def
      split: prod.splits sum.splits option.splits if_splits
      dest: statements_bounded statements_table statements_chunked)

lemma phase_4_inserts:
  "(t, n) \<in> set (inserts (import_phase_4_targets e s)) \<Longrightarrow> n \<le> insert_page e"
  by (auto simp: import_phase_4_targets_def Let_def
      split: prod.splits sum.splits option.splits if_splits dest: statements_bounded)

lemma and_then_inserts:
  "set (inserts (and_then r next_call)) \<subseteq>
     set (inserts r) \<union> set (inserts (next_call (db_after r)))"
  by (auto simp: and_then_def Let_def split: option.splits)

lemma main_block_inserts:
  assumes "(t, n) \<in> set (inserts (main_block e s))"
  shows "n \<le> insert_page e"
proof -
  let ?r1 = "import_phase_1_names e s"
  let ?r2 = "and_then ?r1 (import_phase_2_mono e)"
  let ?r3 = "and_then ?r2 (import_phase_3_combo e)"
  from assms have "(t, n) \<in> set (inserts ?r3) \<or>
      (t, n) \<in> set (inserts (import_phase_4_targets e (db_after ?r3)))"
    using and_then_inserts [of ?r3 "import_phase_4_targets e"] by (auto simp: main_block_def)
  moreover have "(t, n) \<in> set (inserts ?r2) \<or>
      (t, n) \<in> set (inserts (import_phase_3_combo e (db_after ?r2)))"
    if "(t, n) \<in> set (inserts ?r3)"
    using that and_then_inserts [of ?r2 "import_phase_3_combo e"] by auto
  moreover have "(t, n) \<in> set (inserts ?r1) \<or>
      (t, n) \<in> set (inserts (import_phase_2_mono e (db_after ?r1)))"
    if "(t, n) \<in> set (inserts ?r2)"
    using that and_then_inserts [of ?r1 "import_phase_2_mono e"] by auto
  ultimately show ?thesis
    by (auto dest: phase_1_inserts phase_2_inserts phase_3_inserts phase_4_inserts)
qed

lemma phase_1_rows:
  assumes "0 < insert_page e"
  shows "sum_list (map snd (inserts (import_phase_1_names e s))) =
     length (drugs (db_after (import_phase_1_names e s))) - length (drugs s)"
  using assms
  by (simp add: import_phase_1_names_def Let_def statements_rows split: sum.splits)

lemma phase_4_rows:
  assumes "0 < insert_page e"
  shows "sum_list (map snd (inserts (import_phase_4_targets e s))) =
     length (drug_targets (db_after (import_phase_4_targets e s))) - length (drug_targets s)"
  using assms
  by (simp add: import_phase_4_targets_def Let_def statements_rows
      split: prod.splits sum.splits option.splits)

text \<open>
  Claim C8. Every insert statement that reaches the store, from any of the four phases and
  from the whole run, carries at most as many rows as the page of the engine: a batch that
  pandas hands over, whatever its size, is sent in pages. The link inserts of Phases 2
  and 3, which also pass a chunk size, carry at most 1000 rows per statement whatever the
  page. With a positive page the statements of Phase 1 and of Phase 4 together carry every
  row that the phase appends.
\<close>

theorem insert_statements_are_bounded:
  "(\<forall>(table, n) \<in> set (inserts (import_phase_1_names e s)). n \<le> insert_page e) \<and>
   (\<forall>(table, n) \<in> set (inserts (import_phase_2_mono e s)). n \<le> insert_page e) \<and>
   (\<forall>(table, n) \<in> set (inserts (import_phase_3_combo e s)). n \<le> insert_page e) \<and>
   (\<forall>(table, n) \<in> set (inserts (import_phase_4_targets e s)). n \<le> insert_page e) \<and>
   (\<forall>(table, n) \<in> set (inserts (main_block e s)). n \<le> insert_page e) \<and>
   (\<forall>(table, n) \<in> set (inserts (import_phase_2_mono e s)).
      table = ''drug_side_effects'' \<longrightarrow> n \<le> 1000) \<and>
   (\<forall>(table, n) \<in> set (inserts (import_phase_3_combo e s)).
      table = ''drug_side_effects'' \<longrightarrow> n \<le> 1000) \<and>
   (0 < insert_page e \<longrightarrow>
      sum_list (map snd (inserts (import_phase_1_names e s))) =
        length (drugs (db_after (import_phase_1_names e s))) - length (drugs s)) \<and>
   (0 < insert_page e \<longrightarrow>
      sum_list (map snd (inserts (import_phase_4_targets e s))) =
        length (drug_targets (db_after (import_phase_4_targets e s))) -
        length (drug_targets s))"
proof -
  have "\<forall>(table, n) \<in> set (inserts (import_phase_1_names e s)). n \<le> insert_page e"
    by (auto dest: phase_1_inserts)
  moreover have "\<forall>(table, n) \<in> set (inserts (import_phase_2_mono e s)). n \<le> insert_page e"
    by (auto dest: phase_2_inserts)
  moreover have "\<forall>(table, n) \<in> set (inserts (import_phase_3_combo e s)). n \<le> insert_page e"
    by (auto dest: phase_3_inserts)
  moreover have "\<forall>(table, n) \<in> set (inserts (import_phase_4_targets e s)). n \<le> insert_page e"
    by (auto dest: phase_4_inserts)
  moreover have "\<forall>(table, n) \<in> set (inserts (main_block e s)). n \<le> insert_page e"
    by (auto dest: main_block_inserts)
  moreover have "\<forall>(table, n) \<in> set (inserts (import_phase_2_mono e s)).
      table = ''drug_side_effects'' \<longrightarrow> n \<le> 1000"
    by (auto dest: phase_2_inserts)
  moreover have "\<forall>(table, n) \<in> set (inserts (import_phase_3_combo e s)).
      table = ''drug_side_effects'' \<longrightarrow> n \<le> 1000"
    by (auto dest: phase_3_inserts)
  ultimately show ?thesis
    using phase_1_rows [of e s] phase_4_rows [of e s] by blast
qed

lemma numbered_feed_distinct: "distinct (map fst (numbered_feed n))"
proof -
  have "inj_on (\<lambda>i. ''CID'' @ replicate i CHR ''1'') A" for A :: "nat set"
    by (rule inj_onI) (metis length_replicate same_append_eq)
  then show ?thesis
    by (simp add: numbered_feed_def comp_def distinct_map)
qed

lemma keep_first_distinct_keys:
  "distinct (map key xs) \<Longrightarrow> key ` set xs \<inter> set seen = {} \<Longrightarrow> keep_first key seen xs = xs"
  by (induction xs arbitrary: seen) auto

lemma drop_duplicates_distinct_keys:
  "distinct (map key xs) \<Longrightarrow> drop_duplicates key xs = xs"
  by (simp add: drop_duplicates_def keep_first_distinct_keys)

lemma two_pages:
  assumes "length xs = 1001"
  shows "executemany 1000 table xs = [(table, 1000), (table, 1)]"
proof -
  from assms have a: "xs \<noteq> []" "drop 1000 xs \<noteq> []" "drop 1000 (drop 1000 xs) = []"
    by auto
  have "chunks 1000 xs = [take 1000 xs, drop 1000 xs]"
    using a
    by (simp add: chunks.simps [of 1000 xs] chunks.simps [of 1000 "drop 1000 xs"] chunks_Nil)
  with assms show ?thesis
    by (simp add: executemany_def)
qed

theorem insert_statements_are_bounded_witness:
  "inserts (import_phase_1_names (offline\<lparr>read_names := Inr (numbered_feed 1001)\<rparr>) empty_db) =
     [(''drugs'', 1000), (''drugs'', 1)] \<and>
   insert_page (offline\<lparr>read_names := Inr (numbered_feed 1001)\<rparr>) = 1000 \<and>
   list_all (\<lambda>(table, n). n \<le> 1000)
     (inserts (import_phase_1_names (offline\<lparr>read_names := Inr (numbered_feed 1001)\<rparr>)
        empty_db)) \<and>
   length (drugs (db_after
     (import_phase_1_names (offline\<lparr>read_names := Inr (numbered_feed 1001)\<rparr>) empty_db))) = 1001"
proof -
  let ?e = "offline\<lparr>read_names := Inr (numbered_feed 1001)\<rparr>"
  have p: "insert_page ?e = 1000"
    by (simp add: offline_def)
  have d: "drugs empty_db = []"
    by (simp add: empty_db_def)
  have l: "length (numbered_feed 1001) = 1001" "numbered_feed 1001 \<noteq> []"
    by (auto simp: numbered_feed_def)
  have i: "inserts (import_phase_1_names ?e empty_db) = [(''drugs'', 1000), (''drugs'', 1)]"
    using l d
    by (simp add: phase_1_fresh drop_duplicates_distinct_keys numbered_feed_distinct
        statements_def to_sql_def p two_pages)
  from insert_statements_are_bounded [of ?e empty_db] p i d
  show ?thesis
    by (simp add: list_all_iff)
qed

section \<open>Links to identifiers that the drugs table does not hold\<close>

lemma download_serving:
  "download_and_extract_gz (serving df) url =
     ([Downloading url, Extracting ''data.csv''], Inr (Some (strip_columns df)))"
  by (simp add: download_and_extract_gz_def serving_def offline_def archive_of_def
      valid_member_def basename_def)

lemma normalize_plain_ids:
  "normalize_id ''CID001'' = ''CID001''" "normalize_id ''CID002'' = ''CID002''"
  "normalize_id ''CID999'' = ''CID999''"
  "normalize_id (quoted ''CID001'') = ''CID001''" "normalize_id (quoted ''CID002'') = ''CID002''"
  by (simp_all add: normalize_id_def remove_quotes_def py_strip_def strip_by_def
      py_isspace_def quote_def quoted_def)

lemma quoted_is_not_plain:
  "''CID001'' \<noteq> quoted ''CID001''" "''CID001'' \<noteq> quoted ''CID002''"
  "''CID002'' \<noteq> quoted ''CID001''" "''CID002'' \<noteq> quoted ''CID002''"
  by (simp_all add: quoted_def quote_def)

lemma existing_quoted: "existing_drugs quoted_drugs_db = [''CID001'', ''CID002'']"
  by (simp add: existing_drugs_def quoted_drugs_db_def quoted_feed_def empty_db_def
      normalize_plain_ids)

lemma existing_drugs_cong: "drugs s' = drugs s \<Longrightarrow> existing_drugs s' = existing_drugs s"
  by (simp add: existing_drugs_def)

lemma scenario_2_columns:
  "columns (strip_columns scenario_2_frame) =
     [''STITCH'', ''Individual Side Effect'', ''Side Effect Name'']"
  by (simp add: strip_columns_def scenario_2_frame_def py_strip_def strip_by_def py_isspace_def)

lemma scenario_2_labels:
  "unique_label (strip_columns scenario_2_frame) 0"
  "unique_label (strip_columns scenario_2_frame) (Suc 0)"
  "unique_label (strip_columns scenario_2_frame) 2"
  by (simp_all add: unique_label_def scenario_2_columns)

lemma scenario_2_links:
  assumes "existing_drugs s = [''CID001'', ''CID002'']"
  shows "mono_drug_se_filtered s (strip_columns scenario_2_frame) =
     [(''CID001'', Text ''SE01''), (''CID002'', Text ''SE02'')]"
  by (simp add: mono_drug_se_filtered_def Let_def assms strip_columns_def scenario_2_frame_def
      cell_def normalize_plain_ids)

lemma phase_1_quoted_feed:
  "db_after (import_phase_1_names (serving df\<lparr>read_names := Inr quoted_feed\<rparr>) empty_db) =
     quoted_drugs_db"
proof -
  have "drop_duplicates fst quoted_feed = quoted_feed"
    by (simp add: drop_duplicates_def quoted_feed_def quoted_def)
  moreover have "drugs empty_db = []"
    by (simp add: empty_db_def)
  ultimately show ?thesis
    by (simp add: phase_1_fresh quoted_drugs_db_def empty_db_def)
qed

text \<open>
  Claim C1 says that the drug identifier of every row inserted into \<open>drug_side_effects\<close> or
  \<open>drug_targets\<close> exists in \<open>drugs\<close> when the row is inserted, rows of unknown drugs being
  filtered out. The code fails it on this input. The feed of Phase 1 gives the identifiers
  between quote characters, and Phase 1 stores them so. Phase 2, on the monotherapy table of scenario 2,
  then appends the links of CID001 and CID002 to \<open>drug_side_effects\<close>: the filter compares
  the identifiers with their quotes removed on both sides, but the row written carries the
  identifier without quotes, which is the identifier of no row of \<open>drugs\<close>.
\<close>

theorem quoted_identifier_dangling_link:
  "drugs (db_after (import_phase_1_names
      (serving scenario_2_frame\<lparr>read_names := Inr quoted_feed\<rparr>) empty_db)) =
     [(quoted ''CID001'', ''AspirinX''), (quoted ''CID002'', ''Bcillin'')] \<and>
   drug_side_effects (db_after (import_phase_2_mono
      (serving scenario_2_frame\<lparr>read_names := Inr quoted_feed\<rparr>)
      (db_after (import_phase_1_names
         (serving scenario_2_frame\<lparr>read_names := Inr quoted_feed\<rparr>) empty_db)))) =
     [(''CID001'', Text ''SE01'', None), (''CID002'', Text ''SE02'', None)] \<and>
   ''CID001'' \<notin> fst ` set [(quoted ''CID001'', ''AspirinX''), (quoted ''CID002'', ''Bcillin'')] \<and>
   ''CID002'' \<notin> fst ` set [(quoted ''CID001'', ''AspirinX''), (quoted ''CID002'', ''Bcillin'')]"
proof -
  let ?e = "serving scenario_2_frame\<lparr>read_names := Inr quoted_feed\<rparr>"
  have d: "download_and_extract_gz ?e mono_url =
      ([Downloading mono_url, Extracting ''data.csv''], Inr (Some (strip_columns scenario_2_frame)))"
    using download_serving [of scenario_2_frame mono_url]
    by (simp add: download_and_extract_gz_def)
  have c: "\<not> length (columns (strip_columns scenario_2_frame)) < 3"
    by (simp add: scenario_2_columns)
  have x: "existing_drugs (quoted_drugs_db\<lparr>side_effects := t\<rparr>) = [''CID001'', ''CID002'']" for t
    using existing_quoted by (simp add: existing_drugs_def)
  have q: "side_effects quoted_drugs_db = []" "drug_side_effects quoted_drugs_db = []"
    by (simp_all add: quoted_drugs_db_def empty_db_def)
  have t: "drug_side_effects (db_after (phase_2_try ?e quoted_drugs_db
      (Some (strip_columns scenario_2_frame)))) =
      [(''CID001'', Text ''SE01'', None), (''CID002'', Text ''SE02'', None)] \<and>
    raised (phase_2_try ?e quoted_drugs_db (Some (strip_columns scenario_2_frame))) = None"
    using c q
    by (simp add: phase_2_try_def Let_def scenario_2_labels scenario_2_links [OF x]
        concat_to_sql)
  have l: "drug_side_effects (db_after (import_phase_2_mono ?e quoted_drugs_db)) =
      [(''CID001'', Text ''SE01'', None), (''CID002'', Text ''SE02'', None)]"
    using t q
    by (simp add: import_phase_2_mono_def is_table_empty_def d Let_def)
  have p: "db_after (import_phase_1_names ?e empty_db) = quoted_drugs_db"
    by (rule phase_1_quoted_feed)
  have r: "drugs quoted_drugs_db =
      [(quoted ''CID001'', ''AspirinX''), (quoted ''CID002'', ''Bcillin'')]"
    by (simp add: quoted_drugs_db_def quoted_feed_def empty_db_def)
  show ?thesis
    unfolding p using l r quoted_is_not_plain by simp
qed

lemma scenario_3_columns:
  "columns (strip_columns scenario_3_frame) =
     [''STITCH 1'', ''STITCH 2'', ''Polypharmacy Side Effect'', ''Side Effect Name'']"
  by (simp add: strip_columns_def scenario_3_frame_def py_strip_def strip_by_def py_isspace_def)

lemma scenario_3_labels:
  "unique_label (strip_columns scenario_3_frame) 0"
  "unique_label (strip_columns scenario_3_frame) (Suc 0)"
  "unique_label (strip_columns scenario_3_frame) 2"
  "unique_label (strip_columns scenario_3_frame) 3"
  by (simp_all add: unique_label_def scenario_3_columns)



lemma phase_3_db:
  assumes "download_and_extract_gz e combo_url = (out, Inr (Some df))"
    and "4 \<le> length (columns df)"
    and "unique_label df 0" "unique_label df (Suc 0)" "unique_label df 2" "unique_label df 3"
  shows "db_after (import_phase_3_combo e s) =
     s\<lparr>side_effects := side_effects s @ combo_new_se_to_add s df,
       drug_side_effects := drug_side_effects s @
         map (\<lambda>(drug_id, se_code). (drug_id, se_code, Some True)) (combo_rows s df)\<rparr>"
  using assms by (simp add: import_phase_3_combo_def Let_def concat_to_sql)


text \<open>
  A second way in which Phase 3 adds a code that the catalog holds: the codes of the table
  are compared as parsed with the codes of the catalog as text. A code column of numerals
  is parsed as numbers, and a number is found among no texts.
\<close>

lemma numeric_code_added_again:
  "side_effects (db_after (import_phase_3_combo
      (serving (scenario_3_frame\<lparr>rows :=
         [[Text ''CID001'', Text ''CID002'', Whole 7, Text ''Rash'']]\<rparr>))
      (two_drugs_db\<lparr>side_effects := [(Whole 7, Text ''Rash'')]\<rparr>))) =
     [(Whole 7, Text ''Rash''), (Whole 7, Text ''Rash'')]"
proof -
  let ?f = "scenario_3_frame\<lparr>rows := [[Text ''CID001'', Text ''CID002'', Whole 7, Text ''Rash'']]\<rparr>"
  let ?s = "two_drugs_db\<lparr>side_effects := [(Whole 7, Text ''Rash'')]\<rparr>"
  have k: "columns (strip_columns ?f) = columns (strip_columns scenario_3_frame)"
    by (simp add: strip_columns_def)
  have u: "unique_label (strip_columns ?f) 0" "unique_label (strip_columns ?f) (Suc 0)"
    "unique_label (strip_columns ?f) 2" "unique_label (strip_columns ?f) 3"
    using scenario_3_labels by (simp_all add: unique_label_def k)
  have c: "4 \<le> length (columns (strip_columns ?f))"
    by (simp add: k scenario_3_columns)
  have e: "existing_drugs ?s = [''CID001'', ''CID002'']"
    by (simp add: existing_drugs_def two_drugs_db_def empty_db_def normalize_plain_ids)
  have f: "combo_df_filtered ?s (strip_columns ?f) =
      [(''CID001'', ''CID002'', Whole 7, Text ''Rash'')]"
    by (simp add: combo_df_filtered_def Let_def e strip_columns_def cell_def normalize_plain_ids)
  have "combo_new_se_to_add ?s (strip_columns ?f) = [(Whole 7, Text ''Rash'')]"
    by (simp add: combo_new_se_to_add_def Let_def f drop_duplicates_def)
  then show ?thesis
    by (simp add: phase_3_db [OF download_serving c u])
qed

section \<open>Reporting a side effect: outcomes and name matching\<close>

lemma like_match_any: "like_match [CHR ''%''] s"
  by (induction s) auto

lemma like_match_percent:
  "like_match (CHR ''%'' # ps) s \<longleftrightarrow> (\<exists>u v. s = u @ v \<and> like_match ps v)"
proof (induction s)
  case Nil
  then show ?case by simp
next
  case (Cons c s)
  have "(\<exists>u v. c # s = u @ v \<and> like_match ps v) \<longleftrightarrow>
      like_match ps (c # s) \<or> (\<exists>u v. s = u @ v \<and> like_match ps v)"
    by (auto simp: Cons_eq_append_conv)
  with Cons show ?case by simp
qed

lemma like_match_plain:
  "pattern_free n \<Longrightarrow> like_match (n @ ps) s \<longleftrightarrow> (\<exists>v. s = n @ v \<and> like_match ps v)"
proof (induction n arbitrary: s)
  case Nil
  then show ?case by simp
next
  case (Cons a n)
  then show ?case
    by (cases s) (auto simp: pattern_free_def)
qed

lemma like_match_substring:
  assumes "pattern_free n"
  shows "like_match (CHR ''%'' # n @ [CHR ''%'']) s \<longleftrightarrow> sublist n s"
proof -
  have "like_match (n @ [CHR ''%'']) v \<longleftrightarrow> (\<exists>w. v = n @ w)" for v
    by (simp add: like_match_plain [OF assms] like_match_any)
  then have "like_match (CHR ''%'' # n @ [CHR ''%'']) s \<longleftrightarrow> (\<exists>u w. s = u @ n @ w)"
    unfolding like_match_percent [of "n @ [CHR ''%'']" s] by blast
  then show ?thesis
    by (simp add: sublist_def)
qed

lemma ilike_substring:
  assumes "pattern_free name" and "folds_letters lower fc"
  shows "ilike lower s (''%'' @ name @ ''%'') \<longleftrightarrow> sublist (map fc name) (map fc s)"
proof -
  from assms(2) have l: "lower = map fc" and p: "fc CHR ''%'' = CHR ''%''"
    and k: "\<And>c. (fc c = CHR ''%'') = (c = CHR ''%'')" "\<And>c. (fc c = CHR ''_'') = (c = CHR ''_'')"
      "\<And>c. (fc c = backslash) = (c = backslash)"
    by (simp_all add: folds_letters_def)
  from assms(1) k have "pattern_free (map fc name)"
    by (simp add: pattern_free_def list_all_iff)
  then have "like_match (CHR ''%'' # map fc name @ [CHR ''%'']) (map fc s) \<longleftrightarrow>
      sublist (map fc name) (map fc s)"
    by (rule like_match_substring)
  then show ?thesis
    by (simp add: ilike_def l p)
qed

lemma of_char_ascii_lower:
  "of_char (ascii_lower c) =
     (if 65 \<le> (of_char c :: nat) \<and> (of_char c :: nat) \<le> 90 then of_char c + 32
      else of_char c :: nat)"
  by (auto simp: ascii_lower_def Let_def take_bit_eq_mod)

lemma ascii_lower_folds_letters: "folds_letters (map ascii_lower) ascii_lower"
proof -
  have e: "a = b \<longleftrightarrow> (of_char a :: nat) = of_char b" for a b :: char
    by (metis of_char_eq_iff)
  show ?thesis
    by (auto simp: folds_letters_def e of_char_ascii_lower backslash_def)
qed

lemma select_drug_None:
  "select_drug lower d name = None \<longleftrightarrow>
     (\<forall>(stitch_id, common_name) \<in> set (drugs d).
        \<not> ilike lower (sql_trim_quotes common_name) name)"
  by (auto simp: select_drug_def find_None_iff)

lemma report_not_found:
  "select_drug lower d (''%'' @ drug_name r @ ''%'') = None \<Longrightarrow>
     report_side_effect lower fault d r = (HTTPException 404, d)"
  by (simp add: report_side_effect_def)

lemma report_found:
  assumes "select_drug lower d (''%'' @ drug_name r @ ''%'') \<noteq> None"
  shows "report_side_effect lower fault d r =
     (if fault = NoFault then (Success, d\<lparr>user_logs := user_logs d @ [report_row r]\<rparr>)
      else (HTTPException 500, d))"
  using assms
  by (cases fault)
    (auto simp: report_side_effect_def execute_insert_def commit_def rollback_def report_row_def)

lemma report_response:
  "fst (report_side_effect lower fault d r) =
     (if select_drug lower d (''%'' @ drug_name r @ ''%'') = None then HTTPException 404
      else if fault = NoFault then Success else HTTPException 500)"
  by (simp add: report_not_found report_found)

text \<open>
  Claim C10 (amended). The handler answers 404 and leaves the store as it is whenever no row
  of \<open>drugs\<close> has a quote-trimmed display name that matches, under \<^verbatim>\<open>ILIKE\<close>, the pattern made of
  the reported name between two \<^verbatim>\<open>%\<close>. When a row matches, it appends exactly one row to
  \<open>user_logs\<close> and answers success; and when the insert or its commit raises, the transaction
  is rolled back, the store is as before and the answer is 500. For a reported name without
  the pattern characters \<^verbatim>\<open>%\<close>, \<^verbatim>\<open>_\<close> and backslash the match is a substring match without
  regard to case, in the case folding of the database.
\<close>

theorem report_side_effect_outcomes:
  "((\<forall>(stitch_id, common_name) \<in> set (drugs d).
        \<not> ilike lower (sql_trim_quotes common_name) (''%'' @ drug_name r @ ''%'')) \<longrightarrow>
      report_side_effect lower fault d r = (HTTPException 404, d)) \<and>
   ((\<exists>(stitch_id, common_name) \<in> set (drugs d).
        ilike lower (sql_trim_quotes common_name) (''%'' @ drug_name r @ ''%'')) \<longrightarrow>
      report_side_effect lower NoFault d r =
        (Success, d\<lparr>user_logs := user_logs d @
           [(''SIDE_EFFECT_REPORT'', drug_name r,
             [(''drug_name'', drug_name r), (''reported_symptom'', symptom r)])]\<rparr>) \<and>
      (fault \<noteq> NoFault \<longrightarrow> report_side_effect lower fault d r = (HTTPException 500, d))) \<and>
   (pattern_free (drug_name r) \<and> folds_letters lower fc \<longrightarrow>
      ilike lower (sql_trim_quotes common_name) (''%'' @ drug_name r @ ''%'') =
        sublist (map fc (drug_name r)) (map fc (sql_trim_quotes common_name)))"
proof -
  have a: "report_side_effect lower fault d r = (HTTPException 404, d)"
    if "\<forall>(stitch_id, common_name) \<in> set (drugs d).
        \<not> ilike lower (sql_trim_quotes common_name) (''%'' @ drug_name r @ ''%'')"
    using that by (intro report_not_found) (simp add: select_drug_None)
  have b: "report_side_effect lower f d r =
     (if f = NoFault then (Success, d\<lparr>user_logs := user_logs d @ [report_row r]\<rparr>)
      else (HTTPException 500, d))"
    if "\<exists>(stitch_id, common_name) \<in> set (drugs d).
        ilike lower (sql_trim_quotes common_name) (''%'' @ drug_name r @ ''%'')" for f
    using that by (intro report_found) (auto simp: select_drug_None)
  have c: "ilike lower (sql_trim_quotes common_name) (''%'' @ drug_name r @ ''%'') =
        sublist (map fc (drug_name r)) (map fc (sql_trim_quotes common_name))"
    if "pattern_free (drug_name r)" "folds_letters lower fc"
    using that by (rule ilike_substring)
  show ?thesis
    using a b [of NoFault] b [of fault] c
    by (auto simp: report_row_def simp del: append.simps)
qed

lemma select_examples:
  "select_drug (map ascii_lower) two_drugs_db ''%aspirin%'' = Some (''CID001'', ''AspirinX'')"
  "select_drug (map ascii_lower) two_drugs_db ''%_%'' = Some (''CID001'', ''AspirinX'')"
  "select_drug (map ascii_lower) two_drugs_db ''%zzz%'' = None"
  by code_simp+

lemma cafe_examples:
  "select_drug (map latin1_lower) cafe_db (''%'' @ drug_name cafe_report @ ''%'') =
     Some (''CID003'', ''CAF'' @ [CHR 0xC9])"
  "select_drug (map ascii_lower) cafe_db (''%'' @ drug_name cafe_report @ ''%'') = None"
  by code_simp+

lemma embedded_examples:
  "select_drug (map ascii_lower) embedded_db ''%pi%'' = None"
  "select_drug (map ascii_lower) embedded_db (''%'' @ (''p'' @ [quote] @ ''i'') @ ''%'') =
     Some (''CID001'', quoted embedded_name)"
  "sublist ''pi'' (remove_quotes (quoted embedded_name))"
  by code_simp+

theorem report_side_effect_outcomes_witness:
  "report_side_effect (map ascii_lower) NoFault two_drugs_db aspirin_report =
     (Success, two_drugs_db\<lparr>user_logs :=
        [(''SIDE_EFFECT_REPORT'', ''aspirin'',
          [(''drug_name'', ''aspirin''), (''reported_symptom'', ''rash'')])]\<rparr>) \<and>
   report_side_effect (map ascii_lower) CommitFails two_drugs_db aspirin_report =
     (HTTPException 500, two_drugs_db) \<and>
   report_side_effect (map ascii_lower) NoFault two_drugs_db
     (aspirin_report\<lparr>drug_name := ''zzz''\<rparr>) = (HTTPException 404, two_drugs_db) \<and>
   fst (report_side_effect (map latin1_lower) NoFault cafe_db cafe_report) = Success \<and>
   fst (report_side_effect (map ascii_lower) NoFault cafe_db cafe_report) = HTTPException 404 \<and>
   pattern_free (drug_name aspirin_report) \<and>
   folds_letters (map ascii_lower) ascii_lower \<and>
   sublist (map ascii_lower (drug_name aspirin_report))
     (map ascii_lower (sql_trim_quotes ''AspirinX''))"
proof -
  let ?al = "map ascii_lower"
  let ?ll = "map latin1_lower"
  have m: "\<exists>(stitch_id, common_name) \<in> set (drugs two_drugs_db).
      ilike ?al (sql_trim_quotes common_name) (''%'' @ drug_name aspirin_report @ ''%'')"
    using select_examples(1) select_drug_None [of ?al two_drugs_db "''%aspirin%''"]
    by (simp add: aspirin_report_def case_prod_beta)
  have z: "\<forall>(stitch_id, common_name) \<in> set (drugs two_drugs_db).
      \<not> ilike ?al (sql_trim_quotes common_name)
        (''%'' @ drug_name (aspirin_report\<lparr>drug_name := ''zzz''\<rparr>) @ ''%'')"
    using select_examples(3) select_drug_None [of ?al two_drugs_db "''%zzz%''"]
    by simp
  have cm: "\<exists>(stitch_id, common_name) \<in> set (drugs cafe_db).
      ilike ?ll (sql_trim_quotes common_name) (''%'' @ drug_name cafe_report @ ''%'')"
    using cafe_examples(1)
      select_drug_None [of ?ll cafe_db "''%'' @ drug_name cafe_report @ ''%''"]
    by (simp add: case_prod_beta)
  have cz: "\<forall>(stitch_id, common_name) \<in> set (drugs cafe_db).
      \<not> ilike ?al (sql_trim_quotes common_name) (''%'' @ drug_name cafe_report @ ''%'')"
    using cafe_examples(2)
      select_drug_None [of ?al cafe_db "''%'' @ drug_name cafe_report @ ''%''"]
    by simp
  have p: "pattern_free (drug_name aspirin_report)"
    by (simp add: pattern_free_def aspirin_report_def backslash_def)
  have "ilike ?al (sql_trim_quotes ''AspirinX'') ''%aspirin%''"
    by code_simp
  then have i: "ilike ?al (sql_trim_quotes ''AspirinX'') (''%'' @ drug_name aspirin_report @ ''%'')"
    by (simp add: aspirin_report_def)
  have u: "user_logs two_drugs_db = []"
    by (simp add: two_drugs_db_def empty_db_def)
  have w1: "report_side_effect ?al NoFault two_drugs_db aspirin_report =
      (Success, two_drugs_db\<lparr>user_logs :=
        [(''SIDE_EFFECT_REPORT'', ''aspirin'',
          [(''drug_name'', ''aspirin''), (''reported_symptom'', ''rash'')])]\<rparr>) \<and>
    report_side_effect ?al CommitFails two_drugs_db aspirin_report =
      (HTTPException 500, two_drugs_db) \<and>
    sublist (map ascii_lower (drug_name aspirin_report))
      (map ascii_lower (sql_trim_quotes ''AspirinX''))"
    using report_side_effect_outcomes
      [of two_drugs_db ?al aspirin_report CommitFails ascii_lower "''AspirinX''"]
      m p i u ascii_lower_folds_letters
    by (simp add: aspirin_report_def)
  have w2: "report_side_effect ?al NoFault two_drugs_db (aspirin_report\<lparr>drug_name := ''zzz''\<rparr>) =
      (HTTPException 404, two_drugs_db)"
    using report_side_effect_outcomes
      [of two_drugs_db ?al "aspirin_report\<lparr>drug_name := ''zzz''\<rparr>" NoFault] z
    by blast
  have w3: "fst (report_side_effect ?ll NoFault cafe_db cafe_report) = Success"
    using report_side_effect_outcomes [of cafe_db ?ll cafe_report NoFault] cm
    by simp
  have w4: "fst (report_side_effect ?al NoFault cafe_db cafe_report) = HTTPException 404"
    using report_side_effect_outcomes [of cafe_db ?al cafe_report NoFault] cz
    by simp
  from w1 w2 w3 w4 p ascii_lower_folds_letters show ?thesis
    by simp
qed

text \<open>
  Claim C10 as stated fails for a reported name that holds a pattern character: no stored
  name contains an underscore, yet the report of the name \<^verbatim>\<open>_\<close> is accepted and logged,
  because the underscore stands for any one character.
\<close>

theorem wildcard_name_counterexample:
  "report_side_effect (map ascii_lower) NoFault two_drugs_db underscore_report =
     (Success, two_drugs_db\<lparr>user_logs :=
        [(''SIDE_EFFECT_REPORT'', ''_'',
          [(''drug_name'', ''_''), (''reported_symptom'', ''rash'')])]\<rparr>) \<and>
   \<not> sublist (map ascii_lower ''_'') (map ascii_lower (sql_trim_quotes ''AspirinX'')) \<and>
   \<not> sublist (map ascii_lower ''_'') (map ascii_lower (sql_trim_quotes ''Bcillin''))"
proof -
  have "select_drug (map ascii_lower) two_drugs_db (''%'' @ drug_name underscore_report @ ''%'')
      \<noteq> None"
    by (simp add: underscore_report_def select_examples)
  then have "report_side_effect (map ascii_lower) NoFault two_drugs_db underscore_report =
      (Success, two_drugs_db\<lparr>user_logs := user_logs two_drugs_db @ [report_row underscore_report]\<rparr>)"
    by (simp add: report_found)
  moreover have "user_logs two_drugs_db = []"
    by (simp add: two_drugs_db_def empty_db_def)
  moreover have "\<not> sublist (map ascii_lower ''_'') (map ascii_lower (sql_trim_quotes ''AspirinX''))"
    "\<not> sublist (map ascii_lower ''_'') (map ascii_lower (sql_trim_quotes ''Bcillin''))"
    by code_simp+
  ultimately show ?thesis
    by (simp add: report_row_def underscore_report_def)
qed

lemma sql_trim_quotes_ends:
  assumes "core = [] \<or> (hd core \<noteq> quote \<and> last core \<noteq> quote)"
  shows "sql_trim_quotes (replicate i quote @ core @ replicate j quote) = core"
proof (cases "core = []")
  case True
  have "dropWhile (\<lambda>c. c = quote) (replicate (i + j) quote) = []"
    by simp
  with True show ?thesis
    by (simp add: sql_trim_quotes_def strip_by_def replicate_add [symmetric])
next
  case False
  with assms have h: "hd core \<noteq> quote" and l: "last core \<noteq> quote"
    by auto
  have r: "dropWhile (\<lambda>c. c = quote) (replicate k quote @ ys) = dropWhile (\<lambda>c. c = quote) ys"
    for k ys
    by (induction k) simp_all
  have a: "dropWhile (\<lambda>c. c = quote) (replicate i quote @ core @ replicate j quote) =
      core @ replicate j quote"
    using False h by (cases core) (simp_all add: r)
  from False l have "hd (rev core) \<noteq> quote"
    by (simp add: hd_rev)
  with False have b: "dropWhile (\<lambda>c. c = quote) (replicate j quote @ rev core) = rev core"
    by (cases "rev core") (simp_all add: r)
  show ?thesis
    by (simp add: sql_trim_quotes_def strip_by_def a b)
qed

text \<open>
  Claim C9 (amended). Phase 1 stores every row as the feed gives it, the display name with
  whatever quote characters it has. The quoting is stripped when \<^verbatim>\<open>report_side_effect\<close>
  compares: the answer is 404 exactly when no stored name, with the quote characters at its
  two ends removed, matches the reported name; and that trimming removes the quote
  characters at the two ends and nothing else.
\<close>

theorem names_stored_as_fetched_trimmed_on_report:
  "(drugs s = [] \<and> read_names e = Inr feed \<longrightarrow>
      drugs (db_after (import_phase_1_names e s)) = drop_duplicates fst feed \<and>
      set (drugs (db_after (import_phase_1_names e s))) \<subseteq> set feed) \<and>
   ((fst (report_side_effect lower fault d r) = HTTPException 404) =
      (\<forall>(stitch_id, common_name) \<in> set (drugs d).
         \<not> ilike lower (sql_trim_quotes common_name) (''%'' @ drug_name r @ ''%''))) \<and>
   (core = [] \<or> (hd core \<noteq> quote \<and> last core \<noteq> quote) \<longrightarrow>
      sql_trim_quotes (replicate i quote @ core @ replicate j quote) = core)"
proof -
  have "drugs (db_after (import_phase_1_names e s)) = drop_duplicates fst feed \<and>
      set (drugs (db_after (import_phase_1_names e s))) \<subseteq> set feed"
    if "drugs s = []" "read_names e = Inr feed"
    using phase_1_fresh [OF that] by (simp add: drop_duplicates_def keep_first_subset)
  moreover have "(fst (report_side_effect lower fault d r) = HTTPException 404) =
      (\<forall>(stitch_id, common_name) \<in> set (drugs d).
         \<not> ilike lower (sql_trim_quotes common_name) (''%'' @ drug_name r @ ''%''))"
    by (simp add: report_response select_drug_None)
  ultimately show ?thesis
    using sql_trim_quotes_ends [of core i j] by blast
qed

theorem names_stored_as_fetched_trimmed_on_report_witness:
  "drugs (db_after (import_phase_1_names
     (offline\<lparr>read_names := Inr [(''CID001'', quoted embedded_name)]\<rparr>) empty_db)) =
     [(''CID001'', quoted embedded_name)] \<and>
   sql_trim_quotes (quoted embedded_name) = embedded_name \<and>
   fst (report_side_effect (map ascii_lower) NoFault embedded_db
     \<lparr>drug_name = ''pi'', symptom = ''rash''\<rparr>) = HTTPException 404 \<and>
   fst (report_side_effect (map ascii_lower) NoFault embedded_db
     \<lparr>drug_name = ''p'' @ [quote] @ ''i'', symptom = ''rash''\<rparr>) \<noteq> HTTPException 404 \<and>
   sublist ''pi'' (remove_quotes (quoted embedded_name))"
proof -
  let ?e = "offline\<lparr>read_names := Inr [(''CID001'', quoted embedded_name)]\<rparr>"
  let ?al = "map ascii_lower"
  have d: "drugs empty_db = []"
    by (simp add: empty_db_def)
  have f: "read_names ?e = Inr [(''CID001'', quoted embedded_name)]"
    by simp
  have h: "embedded_name = [] \<or> (hd embedded_name \<noteq> quote \<and> last embedded_name \<noteq> quote)"
    by (simp add: embedded_name_def quote_def)
  have q: "quoted embedded_name = replicate 1 quote @ embedded_name @ replicate 1 quote"
    by (simp add: quoted_def)
  note t = names_stored_as_fetched_trimmed_on_report
  have a: "drugs (db_after (import_phase_1_names ?e empty_db)) =
      [(''CID001'', quoted embedded_name)]"
    using t [of empty_db ?e "[(''CID001'', quoted embedded_name)]"] d f
    by (simp add: drop_duplicates_def)
  have b: "sql_trim_quotes (quoted embedded_name) = embedded_name"
    unfolding q using t [of _ _ _ _ _ _ _ embedded_name 1 1] h by blast
  have n1: "\<forall>(stitch_id, common_name) \<in> set (drugs embedded_db).
      \<not> ilike ?al (sql_trim_quotes common_name)
        (''%'' @ drug_name \<lparr>drug_name = ''pi'', symptom = ''rash''\<rparr> @ ''%'')"
    using embedded_examples(1) select_drug_None [of ?al embedded_db "''%pi%''"]
    by simp
  have n2: "\<not> (\<forall>(stitch_id, common_name) \<in> set (drugs embedded_db).
      \<not> ilike ?al (sql_trim_quotes common_name)
        (''%'' @ drug_name \<lparr>drug_name = ''p'' @ [quote] @ ''i'', symptom = ''rash''\<rparr> @ ''%''))"
    using embedded_examples(2)
      select_drug_None [of ?al embedded_db "''%'' @ (''p'' @ [quote] @ ''i'') @ ''%''"]
    by simp
  have c: "fst (report_side_effect ?al NoFault embedded_db
      \<lparr>drug_name = ''pi'', symptom = ''rash''\<rparr>) = HTTPException 404"
    using t [of _ _ _ ?al NoFault embedded_db "\<lparr>drug_name = ''pi'', symptom = ''rash''\<rparr>"] n1
    by blast
  have c': "fst (report_side_effect ?al NoFault embedded_db
      \<lparr>drug_name = ''p'' @ [quote] @ ''i'', symptom = ''rash''\<rparr>) \<noteq> HTTPException 404"
    using t [of _ _ _ ?al NoFault embedded_db
        "\<lparr>drug_name = ''p'' @ [quote] @ ''i'', symptom = ''rash''\<rparr>"] n2
    by blast
  from a b c c' embedded_examples(3) show ?thesis
    by simp
qed

text \<open>
  Claim C9 as stated fails: a name that the feed gives between quote characters is stored
  by Phase 1 with its quote characters.
\<close>

theorem quoted_name_persisted_counterexample:
  "drugs (db_after (import_phase_1_names
     (offline\<lparr>read_names := Inr [(''CID001'', quoted ''AspirinX'')]\<rparr>) empty_db)) =
     [(''CID001'', quoted ''AspirinX'')] \<and>
   quote \<in> set (quoted ''AspirinX'') \<and>
   quoted ''AspirinX'' \<noteq> sql_trim_quotes (quoted ''AspirinX'')"
proof -
  have "drugs empty_db = []"
    by (simp add: empty_db_def)
  then have "drugs (db_after (import_phase_1_names
     (offline\<lparr>read_names := Inr [(''CID001'', quoted ''AspirinX'')]\<rparr>) empty_db)) =
     drop_duplicates fst [(''CID001'', quoted ''AspirinX'')]"
    by (simp add: phase_1_fresh)
  moreover have "sql_trim_quotes (quoted ''AspirinX'') = ''AspirinX''"
    by (simp add: sql_trim_quotes_def strip_by_def quoted_def quote_def)
  ultimately show ?thesis
    by (simp add: drop_duplicates_def quoted_def quote_def)
qed

end
